theory Spec2Isabelle
  imports Complex_Main "HOL-Library.Signed_Division" "HOL-Library.Word"
begin

unbundle bit_operations_syntax

section \<open>Data model\<close>

text \<open>
  The battlescape terrain engine of \<^verbatim>\<open>src/Battlescape/TerrainModifier.cpp\<close>.
  C++ \<^verbatim>\<open>int\<close> values are modelled as \<^typ>\<open>int\<close>: all arithmetic of the engine
  is on map coordinates, voxel coordinates and powers far below the 32-bit range.
  C++ integer division and remainder truncate towards zero; they are written
  \<open>sdiv\<close> and \<open>smod\<close>.
\<close>

record Position =
  pos_x :: int
  pos_y :: int
  pos_z :: int

definition Pos :: "int \<Rightarrow> int \<Rightarrow> int \<Rightarrow> Position" where
  "Pos a b c = \<lparr>pos_x = a, pos_y = b, pos_z = c\<rparr>"

definition pos_plus :: "Position \<Rightarrow> Position \<Rightarrow> Position" where
  "pos_plus a b = Pos (pos_x a + pos_x b) (pos_y a + pos_y b) (pos_z a + pos_z b)"

definition pos_minus :: "Position \<Rightarrow> Position \<Rightarrow> Position" where
  "pos_minus a b = Pos (pos_x a - pos_x b) (pos_y a - pos_y b) (pos_z a - pos_z b)"

datatype ItemDamageType = DT_NONE | DT_AP | DT_IN | DT_HE | DT_SMOKE | DT_STUN

datatype TilePart = O_FLOOR | O_WESTWALL | O_NORTHWALL | O_OBJECT


datatype UnitFaction = FACTION_PLAYER | FACTION_HOSTILE | FACTION_NEUTRAL

text \<open>
  \<^verbatim>\<open>MapData\<close> (src/Ruleset/MapData.cpp): the members the engine reads. \<open>block\<close> is the
  array \<^verbatim>\<open>_block[6]\<close>, whose entries are blockage amounts (0-255); \<open>loftID\<close> is
  \<^verbatim>\<open>_loftID[12]\<close>.
\<close>

record MapData =
  block :: "nat \<Rightarrow> nat"
  isUFODoor :: bool
  isDoor :: bool
  getLightSource :: int
  getArmor :: int
  loftID :: "nat \<Rightarrow> int"

definition getBlock :: "MapData \<Rightarrow> ItemDamageType \<Rightarrow> int" where
  "getBlock md type =
     (if type = DT_NONE then int (block md 1)
      else if type = DT_HE then int (block md 2)
      else if type = DT_SMOKE then int (block md 3)
      else if type = DT_IN then int (block md 4)
      else if type = DT_STUN then int (block md 5)
      else 0)"

datatype DoorState = DoorShut | DoorOpening | DoorOpen

text \<open>
  \<^verbatim>\<open>Tile\<close> is an external collaborator (Savegame/Tile.cpp is not among the sources): the
  record holds what the engine reads through the tile's getters. A \<^verbatim>\<open>Tile*\<close> is
  represented by the grid position of the tile, so \<^verbatim>\<open>tile->getPosition()\<close> is the
  pointer itself and the null pointer is \<open>None\<close>.
\<close>

record Tile =
  getMapData :: "TilePart \<Rightarrow> MapData option"
  doorState :: "TilePart \<Rightarrow> DoorState"
  light :: "nat \<Rightarrow> int"
  lastLight :: "nat \<Rightarrow> int"
  cached :: bool
  getFire :: int
  getSmoke :: int
  getExplosive :: int
  getUnit :: "nat option"
  isDiscovered :: bool
  getChecked :: bool
  getShade :: int
  getTerrainLevel :: int
  getFlammability :: int
  items :: "nat list"

text \<open>
  \<^verbatim>\<open>BattleUnit\<close> is external too; a \<^verbatim>\<open>BattleUnit*\<close> is the index of the unit in the
  list of units of the saved game.
\<close>

record BattleUnit =
  getPosition :: Position
  getDirection :: int
  getFaction :: UnitFaction
  isKneeled :: bool
  isOut :: bool
  getKneelHeight :: int
  getStandHeight :: int
  gotLoftemps :: int
  visibleUnits :: "nat list"

text \<open>
  The calls the engine makes to the state-changing methods of \<^verbatim>\<open>Tile\<close> and
  \<^verbatim>\<open>BattleUnit\<close>. Every such call is appended to the \<open>calls\<close> of the state, in the
  order the engine makes them.
\<close>

datatype TileOp =
    AddLight int nat
  | ResetLight nat
  | CheckForChangedLight nat
  | SetChecked bool
  | SetDiscovered bool
  | SetExplosive int
  | Detonate
  | AddSmoke int
  | Ignite
  | PrepareNewTurn
  | Damage TilePart int
  | OpenDoor TilePart
  | AddItem nat

datatype UnitOp =
    ClearVisibleUnits
  | AddToVisibleUnits nat
  | UnitDamage Position int

datatype Call = TileCall Position TileOp | UnitCall nat UnitOp

text \<open>
  What stops the engine: the dereference of a null \<^verbatim>\<open>Tile*\<close>, of a dangling
  \<^verbatim>\<open>BattleUnit*\<close> or of a null trajectory vector, a read outside a fixed-size array,
  the \<^verbatim>\<open>out_of_range\<close> exception of \<^verbatim>\<open>std::vector::at\<close>. After the first four the
  behaviour of the C++ program is undefined: the model says nothing of what follows them,
  and a run in which one occurs ends there.
\<close>

datatype Fault = NullTile | NullUnit | NullTrajectory | ArrayBounds | OutOfRange

text \<open>
  The state of a \<^verbatim>\<open>TerrainModifier\<close>: the saved battle game \<^verbatim>\<open>_save\<close> (its dimensions,
  global shade, side, tiles and units), the voxel data \<^verbatim>\<open>_voxelData\<close>, and the random
  number source. \<open>RNG\<close> is not among the sources: the three kinds of draw it serves are
  functions of the number of draws made so far (\<open>rng_calls\<close>) and of the arguments.
  \<open>fault\<close> is set when the engine stops abnormally; the tiles and units then are as the
  engine left them.
\<close>

record TerrainModifier =
  getWidth :: int
  getLength :: int
  getHeight :: int
  getGlobalShade :: int
  getSide :: UnitFaction
  tiles :: "Position \<Rightarrow> Tile"
  units :: "BattleUnit list"
  voxelData :: "16 word list"
  rng_generate :: "nat \<Rightarrow> int \<Rightarrow> int \<Rightarrow> int"
  rng_generate_real :: "nat \<Rightarrow> real \<Rightarrow> real \<Rightarrow> real"
  rng_boxMuller :: "nat \<Rightarrow> real \<Rightarrow> real \<Rightarrow> real"
  rng_calls :: nat
  calls :: "Call list"
  fault :: "Fault option"

text \<open>
  Modelled from the spec: \<^verbatim>\<open>SavedBattleGame::getTile\<close> is missing from the sources. The
  spec: "bounds-checked accessors returning an optional/nullable reference"; "any grid
  lookup outside map bounds yields a null/absent result".
\<close>

definition getTile :: "TerrainModifier \<Rightarrow> Position \<Rightarrow> Position option" where
  "getTile s p =
     (if 0 \<le> pos_x p \<and> pos_x p < getWidth s \<and> 0 \<le> pos_y p \<and> pos_y p < getLength s
         \<and> 0 \<le> pos_z p \<and> pos_z p < getHeight s
      then Some p else None)"

text \<open>
  Modelled from the spec: the array \<^verbatim>\<open>getTiles()\<close> is "indexed by
  \<^verbatim>\<open>(z*length + y)*width + x\<close>". A loop over \<^verbatim>\<open>getTiles()[i]\<close> for
  \<open>i = 0 .. width*length*height - 1\<close> visits the tiles in this order: z outermost,
  x innermost.
\<close>

definition getTiles :: "TerrainModifier \<Rightarrow> Position list" where
  "getTiles s =
     concat (map (\<lambda>c. concat (map (\<lambda>b. map (\<lambda>a. Pos a b c) [0 .. getWidth s - 1])
                                   [0 .. getLength s - 1]))
                 [0 .. getHeight s - 1])"

subsection \<open>The methods of Tile the engine calls\<close>

text \<open>
  Modelled from the spec: \<^verbatim>\<open>Tile::isUfoDoorOpen\<close> is missing from the sources. The spec:
  "an open mechanical (UFO-style) door returns 0 regardless of material".
\<close>

definition isUfoDoorOpen :: "Tile \<Rightarrow> TilePart \<Rightarrow> bool" where
  "isUfoDoorOpen t part =
     (case getMapData t part of
        None \<Rightarrow> False
      | Some md \<Rightarrow> isUFODoor md \<and> doorState t part = DoorOpen)"

text \<open>
  Modelled from the spec: \<^verbatim>\<open>Tile::openDoor\<close> is missing from the sources. The spec:
  "states NoDoor(-1), NormalDoorOpened(0), MechanicalDoorOpening(1),
  MechanicalDoorStillOpening(3)"; the source's comment on \<^verbatim>\<open>unitOpensDoor\<close> says the same.
\<close>

definition openDoor_result :: "Tile \<Rightarrow> TilePart \<Rightarrow> int" where
  "openDoor_result t part =
     (case getMapData t part of
        None \<Rightarrow> -1
      | Some md \<Rightarrow>
          if isDoor md \<and> doorState t part = DoorShut then 0
          else if isUFODoor md \<and> doorState t part = DoorShut then 1
          else if isUFODoor md \<and> doorState t part = DoorOpening then 3
          else -1)"

definition destroy_weaker :: "int \<Rightarrow> MapData option \<Rightarrow> MapData option" where
  "destroy_weaker pw m =
     (case m of None \<Rightarrow> None
      | Some md \<Rightarrow> if getArmor md < pw then None else Some md)"

text \<open>
  Modelled from the spec: the state-changing methods of \<^verbatim>\<open>Tile\<close> are missing from the
  sources. The spec: "per-layer light accumulator (reset/add/commit-dirty)"; \<^verbatim>\<open>addLight\<close>
  is to "add \<^verbatim>\<open>max(power - distance, anything)\<close>", "every light layer value is
  non-negative", and a contribution is "added (not set) onto existing layer value": the
  accumulator keeps the greater of the value it holds and the contribution it is given,
  so a contribution never lowers it and a negative one leaves it as it is. What the
  engine itself decides, the calls it makes and their arguments, does not depend on this
  reading. Further: "marking every tile whose accumulated
  value changed since last recompute as needing a re-render"; "fire/smoke counters";
  "marks that tile's floor/object for deferred structural damage"; "every tile's
  deferred damage is resolved", where (source comment on \<^verbatim>\<open>explode\<close>) "HE destroys an
  object if its armor is lower than the explosive power"; "advance its smoke decay by one
  turn", "advance its own fire/burn-down by one turn".
\<close>

fun Tile_apply :: "TileOp \<Rightarrow> Tile \<Rightarrow> Tile" where
  "Tile_apply (AddLight v layer) t = t\<lparr>light := (light t)(layer := max (light t layer) v)\<rparr>"
| "Tile_apply (ResetLight layer) t = t\<lparr>light := (light t)(layer := 0)\<rparr>"
| "Tile_apply (CheckForChangedLight layer) t =
     (if light t layer \<noteq> lastLight t layer
      then t\<lparr>lastLight := (lastLight t)(layer := light t layer), cached := False\<rparr>
      else t)"
| "Tile_apply (SetChecked b) t = t\<lparr>getChecked := b\<rparr>"
| "Tile_apply (SetDiscovered b) t = t\<lparr>isDiscovered := b\<rparr>"
| "Tile_apply (SetExplosive v) t = t\<lparr>getExplosive := v\<rparr>"
| "Tile_apply Detonate t =
     t\<lparr>getMapData := (\<lambda>part. destroy_weaker (getExplosive t) (getMapData t part)),
       getExplosive := 0\<rparr>"
| "Tile_apply (AddSmoke n) t = t\<lparr>getSmoke := getSmoke t + n\<rparr>"
| "Tile_apply Ignite t = t\<lparr>getFire := max 1 (getFire t)\<rparr>"
| "Tile_apply PrepareNewTurn t =
     t\<lparr>getSmoke := max 0 (getSmoke t - 1), getFire := max 0 (getFire t - 1)\<rparr>"
| "Tile_apply (Damage part pw) t =
     t\<lparr>getMapData := (getMapData t)(part := destroy_weaker pw (getMapData t part))\<rparr>"
| "Tile_apply (OpenDoor part) t =
     (if openDoor_result t part = 0 then t\<lparr>doorState := (doorState t)(part := DoorOpen)\<rparr>
      else if openDoor_result t part = 1
      then t\<lparr>doorState := (doorState t)(part := DoorOpening)\<rparr>
      else t)"
| "Tile_apply (AddItem i) t = t\<lparr>items := items t @ [i]\<rparr>"

text \<open>A call \<^verbatim>\<open>tile->op(...)\<close> on the tile at \<open>p\<close>.\<close>

definition tile_call :: "Position \<Rightarrow> TileOp \<Rightarrow> TerrainModifier \<Rightarrow> TerrainModifier" where
  "tile_call p op s =
     s\<lparr>tiles := (tiles s)(p := Tile_apply op (tiles s p)),
       calls := calls s @ [TileCall p op]\<rparr>"

text \<open>
  Modelled from the spec: the state-changing methods of \<^verbatim>\<open>BattleUnit\<close> are missing from
  the sources. The spec: the "per-unit visible-unit set" is "cleared and rebuilt each sweep";
  damage to a unit is recorded as a call only.
\<close>

fun Unit_apply :: "UnitOp \<Rightarrow> BattleUnit \<Rightarrow> BattleUnit" where
  "Unit_apply ClearVisibleUnits u = u\<lparr>visibleUnits := []\<rparr>"
| "Unit_apply (AddToVisibleUnits b) u = u\<lparr>visibleUnits := visibleUnits u @ [b]\<rparr>"
| "Unit_apply (UnitDamage rel pw) u = u"

text \<open>A call \<^verbatim>\<open>unit->op(...)\<close>; a unit pointer that is not a unit of the game faults.\<close>

definition unit_call :: "nat \<Rightarrow> UnitOp \<Rightarrow> TerrainModifier \<Rightarrow> TerrainModifier" where
  "unit_call i op s =
     (if i < length (units s)
      then s\<lparr>units := (units s)[i := Unit_apply op (units s ! i)],
             calls := calls s @ [UnitCall i op]\<rparr>
      else s\<lparr>fault := Some NullUnit\<rparr>)"

section \<open>Geometry kernel: vectorToDirection\<close>

definition dir_x :: "int list" where
  "dir_x = [0, 1, 1, 1, 0, -1, -1, -1]"

definition dir_y :: "int list" where
  "dir_y = [1, 1, 0, -1, -1, -1, 0, 1]"

text \<open>
  Entry \<open>i\<close> of an 8-entry table. The loop of \<^verbatim>\<open>vectorToDirection\<close> runs \<open>i\<close> from 0 to
  8, so for \<open>i = 8\<close> it reads the cell after the table: what that cell holds is not
  determined by the program, and is the parameter \<open>beyond\<close>. \<open>table_read\<close> and the
  loop below follow the loop as written, on a machine that tolerates the read, to say
  which indices are read and what would be returned then.
\<close>

definition table_read :: "int list \<Rightarrow> int \<Rightarrow> nat \<Rightarrow> int" where
  "table_read tab beyond i = (if i < length tab then tab ! i else beyond)"

text \<open>
  The loop \<^verbatim>\<open>for (int i=0;i<9;i++)\<close>. \<open>mem\<close> is the pair of cells after \<^verbatim>\<open>x[8]\<close> and
  \<^verbatim>\<open>y[8]\<close>; \<open>reads\<close> collects the indices at which \<^verbatim>\<open>x[i]\<close> was read.
\<close>

function vectorToDirection_loop ::
  "int \<times> int \<Rightarrow> Position \<Rightarrow> nat \<Rightarrow> nat list \<Rightarrow> int \<times> nat list" where
  "vectorToDirection_loop mem v i reads =
     (if i < 9 then
        (if table_read dir_x (fst mem) i = pos_x v \<and> table_read dir_y (snd mem) i = pos_y v
         then (int i, reads @ [i])
         else vectorToDirection_loop mem v (i + 1) (reads @ [i]))
      else (-1, reads))"
  by pat_completeness auto
termination
  by (relation "measure (\<lambda>(mem, v, i, reads). 9 - i)") auto

text \<open>
  \<^verbatim>\<open>vectorToDirection\<close> as the engine calls it. A read beyond the last entry of the tables
  is a read outside a fixed-size array: the call stops with \<open>ArrayBounds\<close>, whatever the
  cells after the tables hold. It happens for every vector whose x and y are not those
  of one of the eight directions, the zero vector among them.
\<close>

definition vectorToDirection :: "int \<times> int \<Rightarrow> Position \<Rightarrow> Fault + int" where
  "vectorToDirection mem v =
     (case vectorToDirection_loop mem v 0 [] of
        (direction, reads) \<Rightarrow>
          if list_all (\<lambda>i. i < length dir_x) reads then Inr direction else Inl ArrayBounds)"

section \<open>Blockage evaluator\<close>

definition blockage ::
  "TerrainModifier \<Rightarrow> Position option \<Rightarrow> TilePart \<Rightarrow> ItemDamageType \<Rightarrow> int" where
  "blockage s tile part type =
     (case tile of
        None \<Rightarrow> 0
      | Some p \<Rightarrow>
          if part = O_FLOOR \<and> getMapData (tiles s p) O_FLOOR \<noteq> None
          then (if type = DT_HE then 15 else 255)
          else (let b = (case getMapData (tiles s p) part of
                           None \<Rightarrow> 0 | Some md \<Rightarrow> getBlock md type)
                in if isUfoDoorOpen (tiles s p) part then 0 else b))"

text \<open>The loops of \<^verbatim>\<open>verticalBlockage\<close>: the sum of the floor blockage over the levels \<open>zs\<close>.\<close>

definition floors_blockage ::
  "TerrainModifier \<Rightarrow> int \<Rightarrow> int \<Rightarrow> ItemDamageType \<Rightarrow> int list \<Rightarrow> int" where
  "floors_blockage s x y type zs =
     fold (\<lambda>z block. block + blockage s (getTile s (Pos x y z)) O_FLOOR type) zs 0"

definition verticalBlockage ::
  "TerrainModifier \<Rightarrow> Position option \<Rightarrow> Position option \<Rightarrow> ItemDamageType \<Rightarrow> int" where
  "verticalBlockage s startTile endTile type =
     (case (startTile, endTile) of
        (Some st, Some en) \<Rightarrow>
          (let direction = pos_z en - pos_z st; x = pos_x st; y = pos_y st in
           if direction < 0 then floors_blockage s x y type (rev [pos_z en + 1 .. pos_z st])
           else if direction > 0 then floors_blockage s x y type [pos_z st + 1 .. pos_z en]
           else 0)
      | _ \<Rightarrow> 0)"

text \<open>
  \<^verbatim>\<open>horizontalBlockage\<close>: the amount, or the stop of \<^verbatim>\<open>vectorToDirection\<close>. The cells
  \<open>mem\<close> after the tables are handed on by every function that comes to call
  \<^verbatim>\<open>vectorToDirection\<close>; they have no effect on what the engine does, since it stops at the
  read.
\<close>

definition horizontalBlockage ::
  "int \<times> int \<Rightarrow> TerrainModifier \<Rightarrow> Position option \<Rightarrow> Position option
     \<Rightarrow> ItemDamageType \<Rightarrow> Fault + int" where
  "horizontalBlockage mem s startTile endTile type =
     (case (startTile, endTile) of
        (Some st, Some en) \<Rightarrow>
          (case vectorToDirection mem (pos_minus en st) of
             Inl f \<Rightarrow> Inl f
           | Inr direction \<Rightarrow> Inr (
           if direction = -1 then 0
           else if direction = 0 then blockage s startTile O_NORTHWALL type
           else if direction = 1 then
             (blockage s startTile O_NORTHWALL type + blockage s endTile O_WESTWALL type) sdiv 2
             + (blockage s (getTile s (pos_plus st (Pos 1 0 0))) O_WESTWALL type
                + blockage s (getTile s (pos_plus st (Pos 1 0 0))) O_NORTHWALL type) sdiv 2
           else if direction = 2 then blockage s endTile O_WESTWALL type
           else if direction = 3 then
             (blockage s endTile O_WESTWALL type + blockage s endTile O_NORTHWALL type) sdiv 2
             + (blockage s (getTile s (pos_plus st (Pos 1 0 0))) O_WESTWALL type
                + blockage s (getTile s (pos_plus st (Pos 0 (-1) 0))) O_NORTHWALL type) sdiv 2
           else if direction = 4 then blockage s endTile O_NORTHWALL type
           else if direction = 5 then
             (blockage s endTile O_NORTHWALL type + blockage s startTile O_WESTWALL type) sdiv 2
             + (blockage s (getTile s (pos_plus st (Pos 0 (-1) 0))) O_WESTWALL type
                + blockage s (getTile s (pos_plus st (Pos 0 (-1) 0))) O_NORTHWALL type) sdiv 2
           else if direction = 6 then blockage s startTile O_WESTWALL type
           else if direction = 7 then
             (blockage s startTile O_WESTWALL type + blockage s startTile O_NORTHWALL type) sdiv 2
             + (blockage s (getTile s (pos_plus st (Pos 0 1 0))) O_WESTWALL type
                + blockage s (getTile s (pos_plus st (Pos (-1) 0 0))) O_NORTHWALL type) sdiv 2
           else 0))
      | _ \<Rightarrow> Inr 0)"

lemma blockage_nonneg: "0 \<le> blockage s tile part type"
  by (simp add: blockage_def getBlock_def split: option.splits)

section \<open>Lighting engine\<close>

text \<open>
  \<^verbatim>\<open>int(floor(sqrt(float(n)) + 0.5))\<close>. Floating point is modelled by the real numbers:
  for the sums of two squares that occur (light powers are at most a few hundred) the
  single-precision square root is far from every half-integer, so the rounding is the same.
\<close>

definition round_sqrt :: "int \<Rightarrow> int" where
  "round_sqrt n = \<lfloor>sqrt (real_of_int n) + 1 / 2\<rfloor>"

text \<open>\<^verbatim>\<open>if (_save->getTile(p)) _save->getTile(p)->addLight(v, layer);\<close>\<close>

definition addLight_at :: "Position \<Rightarrow> int \<Rightarrow> nat \<Rightarrow> TerrainModifier \<Rightarrow> TerrainModifier" where
  "addLight_at p v layer s =
     (case getTile s p of None \<Rightarrow> s | Some t \<Rightarrow> tile_call t (AddLight v layer) s)"

text \<open>The body of the innermost loop of \<^verbatim>\<open>addLight\<close>: the four mirrored additions.\<close>

definition addLight_cell ::
  "Position \<Rightarrow> int \<Rightarrow> nat \<Rightarrow> int \<Rightarrow> int \<Rightarrow> int \<Rightarrow> TerrainModifier \<Rightarrow> TerrainModifier" where
  "addLight_cell center pw layer x y z s =
     (let distance = round_sqrt (x * x + y * y);
          s1 = addLight_at (Pos (pos_x center + x) (pos_y center + y) z) (pw - distance) layer s;
          s2 = addLight_at (Pos (pos_x center - x) (pos_y center - y) z) (pw - distance) layer s1;
          s3 = addLight_at (Pos (pos_x center - x) (pos_y center + y) z) (pw - distance) layer s2
      in addLight_at (Pos (pos_x center + x) (pos_y center - y) z) (pw - distance) layer s3)"

definition addLight :: "Position \<Rightarrow> int \<Rightarrow> nat \<Rightarrow> TerrainModifier \<Rightarrow> TerrainModifier" where
  "addLight center pw layer s =
     fold (\<lambda>x. fold (\<lambda>y. fold (\<lambda>z. addLight_cell center pw layer x y z)
                                [0 .. getHeight s - 1])
                     [0 .. pw])
          [0 .. pw] s"

text \<open>\<^verbatim>\<open>calculateSunShading(Tile *tile)\<close>; the tile is not null.\<close>

definition calculateSunShading_tile :: "Position \<Rightarrow> TerrainModifier \<Rightarrow> TerrainModifier" where
  "calculateSunShading_tile tile s =
     (let layer = 0;
          pw = 15 - getGlobalShade s;
          pw = (if getGlobalShade s \<le> 5
                   \<and> verticalBlockage s
                        (getTile s (Pos (pos_x tile) (pos_y tile) (getHeight s - 1)))
                        (Some tile) DT_NONE \<noteq> 0
                then pw - 2 else pw)
      in tile_call tile (AddLight pw layer) s)"

definition calculateSunShading :: "TerrainModifier \<Rightarrow> TerrainModifier" where
  "calculateSunShading s = fold calculateSunShading_tile (getTiles s) s"




section \<open>Voxel intersection test\<close>

text \<open>
  \<^verbatim>\<open>(_voxelData->at(idx) & (1 << x)) == (1 << x)\<close>: \<^verbatim>\<open>at\<close> throws outside the vector;
  the \<^verbatim>\<open>Uint16\<close> entry is promoted to \<^verbatim>\<open>int\<close> for the mask.
\<close>

definition voxel_bit :: "TerrainModifier \<Rightarrow> int \<Rightarrow> int \<Rightarrow> Fault + bool" where
  "voxel_bit s idx x =
     (if 0 \<le> idx \<and> idx < int (length (voxelData s))
      then Inr ((uint (voxelData s ! nat idx) AND push_bit (nat x) 1) = push_bit (nat x) 1)
      else Inl OutOfRange)"

text \<open>The test of the unit on the tile: \<open>Inr True\<close> when the voxel hits it.\<close>

definition voxelCheck_unit ::
  "TerrainModifier \<Rightarrow> Position \<Rightarrow> Position \<Rightarrow> nat option \<Rightarrow> Fault + bool" where
  "voxelCheck_unit s tile voxel excludeUnit =
     (case getUnit (tiles s tile) of
        None \<Rightarrow> Inr False
      | Some u \<Rightarrow>
          if Some u = excludeUnit then Inr False
          else if \<not> u < length (units s) then Inl NullUnit
          else if pos_z voxel smod 24
                  < (if isKneeled (units s ! u) then getKneelHeight (units s ! u)
                     else getStandHeight (units s ! u))
          then (let x = 15 - pos_x voxel smod 16;
                    y = 15 - pos_y voxel smod 16;
                    idx = gotLoftemps (units s ! u) * 16 + y
                in voxel_bit s idx x)
          else Inr False)"

text \<open>The loop \<^verbatim>\<open>for (int i=0; i< 4; i++)\<close> over the parts, from part \<open>i\<close> on.\<close>

fun voxelCheck_parts ::
  "TerrainModifier \<Rightarrow> Position \<Rightarrow> Position \<Rightarrow> (int \<times> TilePart) list \<Rightarrow> Fault + int" where
  "voxelCheck_parts s tile voxel [] = Inr (-1)"
| "voxelCheck_parts s tile voxel ((i, part) # rest) =
     (case getMapData (tiles s tile) part of
        None \<Rightarrow> voxelCheck_parts s tile voxel rest
      | Some mp \<Rightarrow>
          (let x = 15 - pos_x voxel smod 16;
               y = 15 - pos_y voxel smod 16;
               layer = (pos_z voxel smod 24) sdiv 2
           in if layer < 0 \<or> 12 \<le> layer then Inl ArrayBounds
              else (case voxel_bit s (loftID mp (nat layer) * 16 + y) x of
                      Inl f \<Rightarrow> Inl f
                    | Inr hit \<Rightarrow> if hit then Inr i else voxelCheck_parts s tile voxel rest)))"

definition voxelCheck :: "TerrainModifier \<Rightarrow> Position \<Rightarrow> nat option \<Rightarrow> Fault + int" where
  "voxelCheck s voxel excludeUnit =
     (case getTile s (Pos (pos_x voxel sdiv 16) (pos_y voxel sdiv 16) (pos_z voxel sdiv 24)) of
        None \<Rightarrow> Inr 5
      | Some tile \<Rightarrow>
          (case voxelCheck_unit s tile voxel excludeUnit of
             Inl f \<Rightarrow> Inl f
           | Inr hit \<Rightarrow>
               if hit then Inr 4
               else voxelCheck_parts s tile voxel
                      [(0, O_FLOOR), (1, O_WESTWALL), (2, O_NORTHWALL), (3, O_OBJECT)]))"

section \<open>Geometry kernel: calculateLine\<close>

text \<open>\<^verbatim>\<open>trajectory->push_back(p)\<close>; the trajectory pointer may be null.\<close>

definition push_back :: "Position list option \<Rightarrow> Position \<Rightarrow> Fault + Position list option" where
  "push_back trajectory p =
     (case trajectory of None \<Rightarrow> Inl NullTrajectory | Some ps \<Rightarrow> Inr (Some (ps @ [p])))"

text \<open>
  The loop \<^verbatim>\<open>for (x = x0; x != x1; x += step_x)\<close>. \<open>step_x\<close> points from \<open>x0\<close> to \<open>x1\<close>,
  so the loop body runs for the values \<open>x0 + k * step_x\<close>, \<open>k = 0 .. |x1 - x0| - 1\<close>: they
  are the list \<open>xs\<close>. The other loop-carried variables are arguments; the result is the
  hit (or -1) and the trajectory.
\<close>

fun calculateLine_loop ::
  "TerrainModifier \<Rightarrow> bool \<Rightarrow> bool \<Rightarrow> int \<Rightarrow> int \<Rightarrow> int \<Rightarrow> int \<Rightarrow> int \<Rightarrow> bool \<Rightarrow> nat option
     \<Rightarrow> int list \<Rightarrow> int \<Rightarrow> int \<Rightarrow> int \<Rightarrow> int \<Rightarrow> Position list option
     \<Rightarrow> Fault + (int \<times> Position list option)" where
  "calculateLine_loop s swap_xy swap_xz delta_x delta_y delta_z step_y step_z storeTrajectory
     excludeUnit [] y z drift_xy drift_xz trajectory = Inr (-1, trajectory)"
| "calculateLine_loop s swap_xy swap_xz delta_x delta_y delta_z step_y step_z storeTrajectory
     excludeUnit (x # xs) y z drift_xy drift_xz trajectory =
     (let cx = x; cy = y; cz = z;
          (cx, cz) = (if swap_xz then (cz, cx) else (cx, cz));
          (cx, cy) = (if swap_xy then (cy, cx) else (cx, cy))
      in case (if storeTrajectory then push_back trajectory (Pos cx cy cz) else Inr trajectory) of
           Inl f \<Rightarrow> Inl f
         | Inr trajectory \<Rightarrow>
             (case voxelCheck s (Pos cx cy cz) excludeUnit of
                Inl f \<Rightarrow> Inl f
              | Inr result \<Rightarrow>
                  if result \<noteq> -1 then
                    (if \<not> storeTrajectory \<and> trajectory \<noteq> None
                     then (case push_back trajectory (Pos cx cy cz) of
                             Inl f \<Rightarrow> Inl f | Inr trajectory \<Rightarrow> Inr (result, trajectory))
                     else Inr (result, trajectory))
                  else
                    (let drift_xy = drift_xy - delta_y;
                         drift_xz = drift_xz - delta_z;
                         (y, drift_xy) = (if drift_xy < 0 then (y + step_y, drift_xy + delta_x)
                                          else (y, drift_xy));
                         (z, drift_xz) = (if drift_xz < 0 then (z + step_z, drift_xz + delta_x)
                                          else (z, drift_xz))
                     in calculateLine_loop s swap_xy swap_xz delta_x delta_y delta_z step_y step_z
                          storeTrajectory excludeUnit xs y z drift_xy drift_xz trajectory)))"

definition calculateLine ::
  "TerrainModifier \<Rightarrow> Position \<Rightarrow> Position \<Rightarrow> bool \<Rightarrow> Position list option \<Rightarrow> nat option
     \<Rightarrow> Fault + (int \<times> Position list option)" where
  "calculateLine s origin target storeTrajectory trajectory excludeUnit =
     (let x0 = pos_x origin; x1 = pos_x target;
          y0 = pos_y origin; y1 = pos_y target;
          z0 = pos_z origin; z1 = pos_z target;
          swap_xy = (\<bar>y1 - y0\<bar> > \<bar>x1 - x0\<bar>);
          (x0, y0, x1, y1) = (if swap_xy then (y0, x0, y1, x1) else (x0, y0, x1, y1));
          swap_xz = (\<bar>z1 - z0\<bar> > \<bar>x1 - x0\<bar>);
          (x0, z0, x1, z1) = (if swap_xz then (z0, x0, z1, x1) else (x0, z0, x1, z1));
          delta_x = \<bar>x1 - x0\<bar>;
          delta_y = \<bar>y1 - y0\<bar>;
          delta_z = \<bar>z1 - z0\<bar>;
          drift_xy = delta_x sdiv 2;
          drift_xz = delta_x sdiv 2;
          step_x = (if x0 > x1 then -1 else 1);
          step_y = (if y0 > y1 then -1 else 1);
          step_z = (if z0 > z1 then -1 else 1)
      in calculateLine_loop s swap_xy swap_xz delta_x delta_y delta_z step_y step_z
           storeTrajectory excludeUnit
           (map (\<lambda>k. x0 + int k * step_x) [0 ..< nat delta_x])
           y0 z0 drift_xy drift_xz trajectory)"

section \<open>Visibility engine\<close>

text \<open>The eye of a unit standing at \<open>p\<close> on a tile of terrain level \<open>level\<close>, as a voxel.\<close>

definition eye_voxel :: "BattleUnit \<Rightarrow> int \<Rightarrow> Position" where
  "eye_voxel u level =
     Pos (pos_x (getPosition u) * 16 + 8) (pos_y (getPosition u) * 16 + 8)
         (pos_z (getPosition u) * 24 + - level
          + (if isKneeled u then getKneelHeight u else getStandHeight u))"

text \<open>
  \<^verbatim>\<open>checkForVisibleUnits(unit, tile)\<close>: the result and the new state. The looking unit
  and the tile are not null.
\<close>

definition checkForVisibleUnits ::
  "nat \<Rightarrow> Position \<Rightarrow> TerrainModifier \<Rightarrow> bool \<times> TerrainModifier" where
  "checkForVisibleUnits unit tile s =
     (case getUnit (tiles s tile) of
        None \<Rightarrow> (False, s)
      | Some bu \<Rightarrow>
          if \<not> bu < length (units s) \<or> \<not> unit < length (units s)
          then (False, s\<lparr>fault := Some NullUnit\<rparr>)
          else if isOut (units s ! bu) then (False, s)
          else if getFaction (units s ! unit) = FACTION_PLAYER
                  \<and> (getFaction (units s ! bu) = FACTION_PLAYER
                      \<or> getFaction (units s ! bu) = FACTION_NEUTRAL)
          then (False, s)
          else if getFaction (units s ! unit) = FACTION_HOSTILE
                  \<and> getFaction (units s ! bu) = FACTION_HOSTILE
          then (False, s)
          else
            (let originVoxel = eye_voxel (units s ! unit) (getTerrainLevel (tiles s tile)) in
             case getTile s (getPosition (units s ! bu)) of
               None \<Rightarrow> (False, s\<lparr>fault := Some NullTile\<rparr>)
             | Some butile \<Rightarrow>
                 (let targetVoxel = eye_voxel (units s ! bu) (getTerrainLevel (tiles s butile)) in
                  case calculateLine s originVoxel targetVoxel False None None of
                    Inl f \<Rightarrow> (False, s\<lparr>fault := Some f\<rparr>)
                  | Inr (test, trajectory) \<Rightarrow>
                      (let hitPosition = Pos (pos_x targetVoxel sdiv 16) (pos_y targetVoxel sdiv 16)
                                             (pos_z targetVoxel sdiv 24)
                       in if test = -1 \<or> (test = 4 \<and> getPosition (units s ! bu) = hitPosition)
                          then (True, unit_call unit (AddToVisibleUnits bu) s)
                          else (False, s)))))"

lemma sdiv_2_nonneg: "0 \<le> a \<Longrightarrow> 0 \<le> (a::int) sdiv 2"
  by (simp add: signed_divide_int_def sgn_if)

lemma horizontalBlockage_nonneg:
  "horizontalBlockage mem s startTile endTile type = Inr b \<Longrightarrow> 0 \<le> b"
  by (auto simp: horizontalBlockage_def blockage_nonneg
      intro!: add_nonneg_nonneg sdiv_2_nonneg split: option.splits sum.splits if_splits)

lemma floors_fold_nonneg:
  "0 \<le> b \<Longrightarrow> 0 \<le> fold (\<lambda>z block. block + blockage s (getTile s (Pos x y z)) O_FLOOR type) zs b"
  by (induction zs arbitrary: b) (simp_all add: blockage_nonneg)

lemma verticalBlockage_nonneg: "0 \<le> verticalBlockage s startTile endTile type"
  by (auto simp: verticalBlockage_def floors_blockage_def Let_def floors_fold_nonneg
      split: option.splits)

text \<open>
  The direction tables of \<^verbatim>\<open>calculateFOV\<close>, in degrees, and the values of a loop
  \<^verbatim>\<open>for (double a = lo; a <= hi; a += step)\<close> over whole numbers of degrees.
\<close>

definition startAngle :: "int list" where
  "startAngle = [45, 0, -45, 270, 225, 180, 135, 90]"

definition endAngle :: "int list" where
  "endAngle = [135, 90, 45, 360, 315, 270, 225, 180]"

definition angle_steps :: "int \<Rightarrow> int \<Rightarrow> int \<Rightarrow> int list" where
  "angle_steps lo hi step = map (\<lambda>k. lo + step * int k) [0 ..< nat ((hi - lo) div step + 1)]"

text \<open>
  The tile reached after \<open>l\<close> steps along the ray of vertical angle \<open>fi\<close> and horizontal
  angle \<open>te\<close> from the unit at \<open>upos\<close>. The doubles of the code are modelled by real
  numbers. Where a coordinate of the ray falls within rounding error of a tile boundary
  (at \<open>te = 240\<close> the double cosine is a little below -1/2) the code may enter the
  neighbour of the tile computed here. What is proved of the rays below holds whatever
  tiles they enter; a ray is followed step by step only at angle 0, where the doubles are
  exact.
\<close>

definition fov_cell :: "Position \<Rightarrow> int \<Rightarrow> int \<Rightarrow> nat \<Rightarrow> Position" where
  "fov_cell upos fi te l =
     (let centerZ = real_of_int (pos_z upos * 2) + 1.5;
          centerX = real_of_int (pos_x upos) + 0.5;
          centerY = real_of_int (pos_y upos) + 0.5;
          cos_fi = cos (real_of_int fi * pi / 180);
          sin_fi = sin (real_of_int fi * pi / 180);
          cos_te = cos (real_of_int te * pi / 180);
          sin_te = sin (real_of_int te * pi / 180);
          vx = centerX + real l * cos_te * cos_fi;
          vy = centerY + real l * sin_te * cos_fi;
          vz = centerZ + real l * sin_fi
      in Pos \<lfloor>vx\<rfloor> \<lfloor>vy\<rfloor> \<lfloor>vz / 2\<rfloor>)"

text \<open>
  \<^verbatim>\<open>if (t && t->getMapData(part) && (t->getMapData(part)->isDoor() ||
  t->getMapData(part)->isUFODoor())) t->setDiscovered(true);\<close>
\<close>

definition fov_reveal_door ::
  "Position option \<Rightarrow> TilePart \<Rightarrow> TerrainModifier \<Rightarrow> TerrainModifier" where
  "fov_reveal_door t part s =
     (case t of
        None \<Rightarrow> s
      | Some p \<Rightarrow>
          (case getMapData (tiles s p) part of
             None \<Rightarrow> s
           | Some md \<Rightarrow>
               if isDoor md \<or> isUFODoor md then tile_call p (SetDiscovered True) s else s))"

text \<open>
  The body of \<^verbatim>\<open>if (power_ > 0 && dest->getShade() < 10 && !dest->getChecked())\<close>: the
  tile \<open>dest\<close> becomes visible.
\<close>

definition fov_see :: "nat \<Rightarrow> Position \<Rightarrow> TerrainModifier \<Rightarrow> TerrainModifier" where
  "fov_see unit dest s =
     (let s = tile_call dest (SetChecked True) s;
          s = snd (checkForVisibleUnits unit dest s)
      in if fault s \<noteq> None then s
         else if getFaction (units s ! unit) = FACTION_PLAYER then
           (let s = tile_call dest (SetDiscovered True) s;
                s = fov_reveal_door
                      (getTile s (Pos (pos_x dest + 1) (pos_y dest) (pos_z dest))) O_WESTWALL s
            in fov_reveal_door
                 (getTile s (Pos (pos_x dest) (pos_y dest - 1) (pos_z dest))) O_NORTHWALL s)
         else s)"

definition objectFalloff :: "TerrainModifier \<Rightarrow> Position \<Rightarrow> ItemDamageType \<Rightarrow> int" where
  "objectFalloff s dest type =
     (case getMapData (tiles s dest) O_OBJECT of None \<Rightarrow> 0 | Some md \<Rightarrow> getBlock md type)"

lemma objectFalloff_nonneg: "0 \<le> objectFalloff s dest type"
  by (simp add: objectFalloff_def getBlock_def split: option.splits)

text \<open>
  The loop \<^verbatim>\<open>while (power_ > 0)\<close> of one ray: \<open>upos\<close> is the position of the unit,
  \<open>origin\<close> the tile the ray comes from, \<open>l\<close> the steps made, \<open>power_left\<close> is \<^verbatim>\<open>power_\<close>.
  A fault inside the body ends the ray.
\<close>

function calculateFOV_ray ::
  "int \<times> int \<Rightarrow> nat \<Rightarrow> Position \<Rightarrow> int \<Rightarrow> int \<Rightarrow> TerrainModifier \<Rightarrow> Position option
     \<Rightarrow> nat \<Rightarrow> int \<Rightarrow> TerrainModifier" where
  "calculateFOV_ray mem unit upos fi te s origin l power_left =
     (if power_left > 0 \<and> fault s = None then
        (case getTile s (fov_cell upos fi te (l + 1)) of
           None \<Rightarrow> s
         | Some dest \<Rightarrow>
             (case horizontalBlockage mem s origin (Some dest) DT_NONE of
                Inl f \<Rightarrow> s\<lparr>fault := Some f\<rparr>
              | Inr hb \<Rightarrow>
                  (let p1 = power_left - 1;
                       p2 = p1 - hb;
                       p3 = p2 - verticalBlockage s origin (Some dest) DT_NONE;
                       falloff = objectFalloff s dest DT_NONE;
                       s' = (if p3 > 0 \<and> getShade (tiles s dest) < 10
                                \<and> \<not> getChecked (tiles s dest)
                             then fov_see unit dest s else s)
                   in calculateFOV_ray mem unit upos fi te s' (Some dest) (l + 1) (p3 - falloff))))
      else s)"
  by pat_completeness auto
termination
proof (relation "measure (\<lambda>(mem, unit, upos, fi, te, s, origin, l, power_left). nat power_left)")
  show "wf (measure (\<lambda>(mem, unit, upos, fi, te, s, origin, l, power_left). nat power_left))"
    by simp
next
  fix mem :: "int \<times> int" and unit :: nat and upos :: Position and fi te :: int
    and s :: TerrainModifier and origin :: "Position option" and l :: nat
    and power_left :: int and dest :: Position and hb p1 p2 p3 falloff :: int
    and s' :: TerrainModifier
  assume "0 < power_left \<and> fault s = None"
    and hb: "horizontalBlockage mem s origin (Some dest) DT_NONE = Inr hb"
    and "p1 = power_left - 1"
    and "p2 = p1 - hb"
    and "p3 = p2 - verticalBlockage s origin (Some dest) DT_NONE"
    and "falloff = objectFalloff s dest DT_NONE"
  moreover have "0 \<le> hb"
    using hb by (rule horizontalBlockage_nonneg)
  moreover have "0 \<le> verticalBlockage s origin (Some dest) DT_NONE"
    "0 \<le> objectFalloff s dest DT_NONE"
    by (rule verticalBlockage_nonneg objectFalloff_nonneg)+
  ultimately show "((mem, unit, upos, fi, te, s', Some dest, l + 1, p3 - falloff),
      (mem, unit, upos, fi, te, s, origin, l, power_left))
      \<in> measure (\<lambda>(mem, unit, upos, fi, te, s, origin, l, power_left). nat power_left)"
    by simp
qed
declare calculateFOV_ray.simps [simp del]

text \<open>The rays of one vertical angle \<open>fi\<close>: the loop over \<open>te\<close>.\<close>

definition calculateFOV_sweep ::
  "int \<times> int \<Rightarrow> nat \<Rightarrow> Position \<Rightarrow> int \<Rightarrow> TerrainModifier \<Rightarrow> TerrainModifier" where
  "calculateFOV_sweep mem unit upos fi s =
     (if fault s \<noteq> None then s
      else
        (let direction = getDirection (units s ! unit) in
         if direction < 0 \<or> 8 \<le> direction then s\<lparr>fault := Some ArrayBounds\<rparr>
         else
           fold (\<lambda>te s. if fault s \<noteq> None then s
                         else calculateFOV_ray mem unit upos fi te s (getTile s upos) 0 20)
                (angle_steps (startAngle ! nat direction) (endAngle ! nat direction) 3) s))"

text \<open>The two nested loops of \<^verbatim>\<open>calculateFOV\<close>: all rays.\<close>

definition calculateFOV_rays ::
  "int \<times> int \<Rightarrow> nat \<Rightarrow> TerrainModifier \<Rightarrow> TerrainModifier" where
  "calculateFOV_rays mem unit s =
     (let upos = getPosition (units s ! unit);
          startFi = (if pos_z upos = 0 then 0 else -90);
          endFi = 60
      in fold (calculateFOV_sweep mem unit upos) (angle_steps startFi endFi 6) s)"

text \<open>The loop that clears the \<^verbatim>\<open>checked\<close> flag of all tiles.\<close>

definition calculateFOV_clear :: "TerrainModifier \<Rightarrow> TerrainModifier" where
  "calculateFOV_clear s = fold (\<lambda>p. tile_call p (SetChecked False)) (getTiles s) s"

text \<open>
  \<^verbatim>\<open>if (unit->getFaction() == FACTION_PLAYER)
  _save->getTile(unit->getPosition())->setDiscovered(true);\<close>
\<close>

definition calculateFOV_discover :: "nat \<Rightarrow> TerrainModifier \<Rightarrow> TerrainModifier" where
  "calculateFOV_discover unit s =
     (if getFaction (units s ! unit) = FACTION_PLAYER
      then (case getTile s (getPosition (units s ! unit)) of
              None \<Rightarrow> s\<lparr>fault := Some NullTile\<rparr>
            | Some t \<Rightarrow> tile_call t (SetDiscovered True) s)
      else s)"

text \<open>\<^verbatim>\<open>calculateFOV(BattleUnit *unit)\<close>.\<close>

definition calculateFOV :: "int \<times> int \<Rightarrow> nat \<Rightarrow> TerrainModifier \<Rightarrow> TerrainModifier" where
  "calculateFOV mem unit s =
     (if \<not> unit < length (units s) then s\<lparr>fault := Some NullUnit\<rparr>
      else
        (let s1 = calculateFOV_discover unit s
         in if fault s1 \<noteq> None then s1
            else calculateFOV_rays mem unit
                   (calculateFOV_clear (unit_call unit ClearVisibleUnits s1))))"

text \<open>\<^verbatim>\<open>calculateFOV(const Position &position)\<close>: every unit of the side whose turn it is.\<close>

definition calculateFOV_position ::
  "int \<times> int \<Rightarrow> Position \<Rightarrow> TerrainModifier \<Rightarrow> TerrainModifier" where
  "calculateFOV_position mem position s =
     fold (\<lambda>i s. if fault s \<noteq> None then s
                  else if getFaction (units s ! i) = getSide s then calculateFOV mem i s
                  else s)
          [0 ..< length (units s)] s"

section \<open>Propagation engine\<close>
















section \<open>Doors and items\<close>

text \<open>\<^verbatim>\<open>tile->openDoor(part)\<close>: the result and the new state.\<close>

definition openDoor :: "Position \<Rightarrow> TilePart \<Rightarrow> TerrainModifier \<Rightarrow> int \<times> TerrainModifier" where
  "openDoor t part s = (openDoor_result (tiles s t) part, tile_call t (OpenDoor part) s)"

text \<open>\<^verbatim>\<open>tile = _save->getTile(p); if (tile) tile->openDoor(part);\<close>\<close>

definition openDoor_at :: "Position \<Rightarrow> TilePart \<Rightarrow> TerrainModifier \<Rightarrow> TerrainModifier" where
  "openDoor_at p part s =
     (case getTile s p of None \<Rightarrow> s | Some t \<Rightarrow> snd (openDoor t part s))"

text \<open>
  The \<^verbatim>\<open>switch\<close> of \<^verbatim>\<open>unitOpensDoor\<close>: the values of \<^verbatim>\<open>door\<close> and \<^verbatim>\<open>tile\<close> after it, and
  the state. \<open>upos\<close> is the position of the unit, \<open>tile\<close> the tile it stands on.
\<close>

definition unitOpensDoor_switch ::
  "int \<Rightarrow> Position \<Rightarrow> Position option \<Rightarrow> TerrainModifier
     \<Rightarrow> int \<times> Position option \<times> TerrainModifier" where
  "unitOpensDoor_switch direction upos tile s =
     (if direction = 0 then
        (case tile of
           None \<Rightarrow> (-1, tile, s\<lparr>fault := Some NullTile\<rparr>)
         | Some t \<Rightarrow>
             (let (door, s) = openDoor t O_NORTHWALL s
              in if door = 1 then
                   (let s = openDoor_at (pos_plus upos (Pos 1 0 0)) O_NORTHWALL s;
                        s = openDoor_at (pos_plus upos (Pos (-1) 0 0)) O_NORTHWALL s
                    in (door, getTile s (pos_plus upos (Pos (-1) 0 0)), s))
                 else (door, tile, s)))
      else if direction = 2 then
        (case tile of
           None \<Rightarrow> (-1, tile, s\<lparr>fault := Some NullTile\<rparr>)
         | Some t \<Rightarrow>
             (let tile = getTile s (pos_plus t (Pos 1 0 0));
                  (door, s) = (case tile of None \<Rightarrow> (-1, s) | Some t \<Rightarrow> openDoor t O_WESTWALL s)
              in if door = 1 then
                   (let s = openDoor_at (pos_plus upos (Pos 1 (-1) 0)) O_WESTWALL s;
                        s = openDoor_at (pos_plus upos (Pos 1 1 0)) O_WESTWALL s
                    in (door, getTile s (pos_plus upos (Pos 1 1 0)), s))
                 else (door, tile, s)))
      else if direction = 4 then
        (case tile of
           None \<Rightarrow> (-1, tile, s\<lparr>fault := Some NullTile\<rparr>)
         | Some t \<Rightarrow>
             (let tile = getTile s (pos_plus t (Pos 0 (-1) 0));
                  (door, s) = (case tile of None \<Rightarrow> (-1, s) | Some t \<Rightarrow> openDoor t O_NORTHWALL s)
              in if door = 1 then
                   (let s = openDoor_at (pos_plus upos (Pos 1 (-1) 0)) O_NORTHWALL s;
                        s = openDoor_at (pos_plus upos (Pos (-1) (-1) 0)) O_NORTHWALL s
                    in (door, getTile s (pos_plus upos (Pos (-1) (-1) 0)), s))
                 else (door, tile, s)))
      else if direction = 6 then
        (case tile of
           None \<Rightarrow> (-1, tile, s\<lparr>fault := Some NullTile\<rparr>)
         | Some t \<Rightarrow>
             (let (door, s) = openDoor t O_WESTWALL s
              in if door = 1 then
                   (let s = openDoor_at (pos_plus upos (Pos 0 (-1) 0)) O_WESTWALL s;
                        s = openDoor_at (pos_plus upos (Pos 0 1 0)) O_WESTWALL s
                    in (door, getTile s (pos_plus upos (Pos 0 1 0)), s))
                 else (door, tile, s)))
      else (-1, tile, s))"

text \<open>\<^verbatim>\<open>unitOpensDoor(unit)\<close>: the value returned and the new state.\<close>

definition unitOpensDoor :: "int \<times> int \<Rightarrow> nat \<Rightarrow> TerrainModifier \<Rightarrow> int \<times> TerrainModifier" where
  "unitOpensDoor mem unit s =
     (if \<not> unit < length (units s) then (-1, s\<lparr>fault := Some NullUnit\<rparr>)
      else
        (let upos = getPosition (units s ! unit);
             (door, tile, s) =
               unitOpensDoor_switch (getDirection (units s ! unit)) upos (getTile s upos) s
         in if fault s \<noteq> None then (door, s)
            else if door = 0 \<or> door = 1 then
              (case tile of
                 None \<Rightarrow> (door, s\<lparr>fault := Some NullTile\<rparr>)
               | Some t \<Rightarrow> (door, calculateFOV_position mem t s))
            else (door, s)))"

text \<open>The loop of \<^verbatim>\<open>spawnItem\<close>: the position the item falls to, if no tile is missing.\<close>

function spawnItem_fall :: "TerrainModifier \<Rightarrow> Position \<Rightarrow> Fault + Position" where
  "spawnItem_fall s p =
     (case getTile s p of
        None \<Rightarrow> Inl NullTile
      | Some t \<Rightarrow>
          if getMapData (tiles s t) O_FLOOR = None \<and> pos_z p > 0
          then spawnItem_fall s (p\<lparr>pos_z := pos_z p - 1\<rparr>)
          else Inr p)"
  by pat_completeness auto
termination
  by (relation "measure (\<lambda>(s, p). nat (pos_z p))") auto
declare spawnItem_fall.simps [simp del]

definition spawnItem :: "Position \<Rightarrow> nat \<Rightarrow> TerrainModifier \<Rightarrow> TerrainModifier" where
  "spawnItem position item s =
     (case spawnItem_fall s position of
        Inl f \<Rightarrow> s\<lparr>fault := Some f\<rparr>
      | Inr p \<Rightarrow>
          (case getTile s p of
             None \<Rightarrow> s\<lparr>fault := Some NullTile\<rparr>
           | Some t \<Rightarrow> tile_call t (AddItem item) s))"

section \<open>What the engine's steps preserve\<close>

text \<open>
  A relation \<open>R\<close> between the state before and the state after is kept by the engine
  when it is reflexive and transitive and holds across each elementary step: a call of
  a tile method \<open>okT\<close> admits, a call of a unit method \<open>okU\<close> admits, a fault, a draw
  from the random number source.
\<close>

definition engine_rel ::
  "(TileOp \<Rightarrow> bool) \<Rightarrow> (UnitOp \<Rightarrow> bool) \<Rightarrow> (TerrainModifier \<Rightarrow> TerrainModifier \<Rightarrow> bool) \<Rightarrow> bool" where
  "engine_rel okT okU R \<longleftrightarrow>
     (\<forall>s. R s s)
     \<and> (\<forall>a b c. R a b \<longrightarrow> R b c \<longrightarrow> R a c)
     \<and> (\<forall>p op s. okT op \<longrightarrow> R s (tile_call p op s))
     \<and> (\<forall>i op s. okU op \<longrightarrow> R s (unit_call i op s))
     \<and> (\<forall>f s. R s (s\<lparr>fault := Some f\<rparr>))
     \<and> (\<forall>n s. R s (s\<lparr>rng_calls := n\<rparr>))"

text \<open>
  Three such relations: a \<^verbatim>\<open>checked\<close> flag that is set stays set; a \<^verbatim>\<open>discovered\<close> flag
  that is set stays set; the calls made are appended to those made before, and each of
  the new ones satisfies \<open>P\<close>.
\<close>

definition checked_kept :: "TerrainModifier \<Rightarrow> TerrainModifier \<Rightarrow> bool" where
  "checked_kept s s' \<longleftrightarrow> (\<forall>p. getChecked (tiles s p) \<longrightarrow> getChecked (tiles s' p))"

definition discovered_kept :: "TerrainModifier \<Rightarrow> TerrainModifier \<Rightarrow> bool" where
  "discovered_kept s s' \<longleftrightarrow> (\<forall>p. isDiscovered (tiles s p) \<longrightarrow> isDiscovered (tiles s' p))"

definition calls_added :: "(Call \<Rightarrow> bool) \<Rightarrow> TerrainModifier \<Rightarrow> TerrainModifier \<Rightarrow> bool" where
  "calls_added P s s' \<longleftrightarrow> (\<exists>cs. calls s' = calls s @ cs \<and> list_all P cs)"

text \<open>
  The checked flags against the calls: no flag is cleared, and a flag is set afterwards
  exactly when it was set before or one of the calls made sets it.
\<close>

definition checked_marks :: "TerrainModifier \<Rightarrow> TerrainModifier \<Rightarrow> bool" where
  "checked_marks s s' \<longleftrightarrow>
     (\<exists>cs. calls s' = calls s @ cs
        \<and> list_all (\<lambda>c. \<forall>p. c \<noteq> TileCall p (SetChecked False)) cs
        \<and> (\<forall>p. getChecked (tiles s' p)
              \<longleftrightarrow> getChecked (tiles s p) \<or> TileCall p (SetChecked True) \<in> set cs))"

text \<open>
  More relations: the dimensions of the map stay the same; the parts of every tile stay
  the same; the terrain (dimensions, global shade, parts and doors) stays the same.
\<close>

definition dims_kept :: "TerrainModifier \<Rightarrow> TerrainModifier \<Rightarrow> bool" where
  "dims_kept s s' \<longleftrightarrow>
     getWidth s' = getWidth s \<and> getLength s' = getLength s \<and> getHeight s' = getHeight s"


definition terrain_kept :: "TerrainModifier \<Rightarrow> TerrainModifier \<Rightarrow> bool" where
  "terrain_kept s s' \<longleftrightarrow>
     getWidth s' = getWidth s \<and> getLength s' = getLength s \<and> getHeight s' = getHeight s
     \<and> getGlobalShade s' = getGlobalShade s
     \<and> (\<forall>p. getMapData (tiles s' p) = getMapData (tiles s p)
            \<and> doorState (tiles s' p) = doorState (tiles s p))"




text \<open>
  What layer \<open>layer\<close> of the tile \<open>p\<close> holds after the calls \<open>cs\<close>, having held \<open>e\<close>, for
  a tile that combines the value it holds with a contribution by \<open>acc\<close>: the calls of
  \<^verbatim>\<open>Tile::addLight\<close> on that layer of that tile, replayed in order.
\<close>

fun add_light_of :: "Position \<Rightarrow> nat \<Rightarrow> Call \<Rightarrow> int option" where
  "add_light_of p layer (TileCall q (AddLight v l)) = (if q = p \<and> l = layer then Some v else None)"
| "add_light_of p layer c = None"

definition replay :: "(int \<Rightarrow> int \<Rightarrow> int) \<Rightarrow> Position \<Rightarrow> nat \<Rightarrow> Call list \<Rightarrow> int \<Rightarrow> int" where
  "replay acc p layer cs e =
     fold (\<lambda>c e. case add_light_of p layer c of None \<Rightarrow> e | Some v \<Rightarrow> acc e v) cs e"


section \<open>Example maps\<close>

text \<open>A tile with no parts, no unit, dark and unvisited; a part that blocks every channel by \<open>b\<close>.\<close>

definition empty_tile :: Tile where
  "empty_tile =
     \<lparr>getMapData = (\<lambda>part. None), doorState = (\<lambda>part. DoorShut), light = (\<lambda>layer. 0),
      lastLight = (\<lambda>layer. 0), cached = True, getFire = 0, getSmoke = 0, getExplosive = 0,
      getUnit = None, isDiscovered = False, getChecked = False, getShade = 0,
      getTerrainLevel = 0, getFlammability = 0, items = []\<rparr>"

definition solid :: "nat \<Rightarrow> MapData" where
  "solid b =
     \<lparr>block = (\<lambda>k. b), isUFODoor = False, isDoor = False, getLightSource = 0, getArmor = 0,
      loftID = (\<lambda>layer. 0)\<rparr>"

text \<open>The empty map of the given width, length and height, in full daylight, with no units.\<close>

definition empty_map :: "int \<Rightarrow> int \<Rightarrow> int \<Rightarrow> TerrainModifier" where
  "empty_map w l h =
     \<lparr>getWidth = w, getLength = l, getHeight = h, getGlobalShade = 0, getSide = FACTION_PLAYER,
      tiles = (\<lambda>p. empty_tile), units = [], voxelData = [],
      rng_generate = (\<lambda>n lo hi. lo), rng_generate_real = (\<lambda>n lo hi. lo),
      rng_boxMuller = (\<lambda>n m sd. m), rng_calls = 0, calls = [], fault = None\<rparr>"

definition put_part ::
  "Position \<Rightarrow> TilePart \<Rightarrow> MapData \<Rightarrow> TerrainModifier \<Rightarrow> TerrainModifier" where
  "put_part p part md s =
     s\<lparr>tiles := (tiles s)
          (p := (tiles s p)\<lparr>getMapData := (getMapData (tiles s p))(part := Some md)\<rparr>)\<rparr>"



text \<open>A 3 x 1 x 1 strip of empty tiles.\<close>

definition strip_map :: TerrainModifier where
  "strip_map = empty_map 3 1 1"

text \<open>A 1 x 1 x 2 column in full daylight whose upper tile has a floor.\<close>

definition roofed_map :: TerrainModifier where
  "roofed_map = put_part (Pos 0 0 1) O_FLOOR (solid 0) (empty_map 1 1 2)"

text \<open>
  A 2 x 1 x 1 map with one player unit on tile (0,0,0), at ground level, facing
  direction 1, whose horizontal sweep starts at angle 0; the same map in darkness.
\<close>

definition scout :: BattleUnit where
  "scout =
     \<lparr>getPosition = Pos 0 0 0, getDirection = 1, getFaction = FACTION_PLAYER, isKneeled = False,
      isOut = False, getKneelHeight = 14, getStandHeight = 22, gotLoftemps = 0,
      visibleUnits = []\<rparr>"

definition scout_map :: TerrainModifier where
  "scout_map =
     (empty_map 2 1 1)
       \<lparr>tiles := (\<lambda>p. if p = Pos 0 0 0 then empty_tile\<lparr>getUnit := Some 0\<rparr> else empty_tile),
        units := [scout]\<rparr>"

definition dark_scout_map :: TerrainModifier where
  "dark_scout_map = scout_map\<lparr>tiles := (\<lambda>p. (tiles scout_map p)\<lparr>getShade := 15\<rparr>)\<rparr>"

text \<open>The state in which the rays of \<^verbatim>\<open>calculateFOV\<close> start on \<open>scout_map\<close>.\<close>

definition scout_start :: TerrainModifier where
  "scout_start = calculateFOV_clear (unit_call 0 ClearVisibleUnits (calculateFOV_discover 0 scout_map))"

text \<open>
  \<open>scout_map\<close> with the unit facing north (direction 0) and a closed UFO door as the
  north wall of its tile, at the west edge of the map.
\<close>

definition ufo_door :: MapData where
  "ufo_door = (solid 255)\<lparr>isUFODoor := True\<rparr>"

definition door_map :: TerrainModifier where
  "door_map = put_part (Pos 0 0 0) O_NORTHWALL ufo_door scout_map\<lparr>units := [scout\<lparr>getDirection := 0\<rparr>]\<rparr>"



text \<open>The roofed column at dusk, global shade 6.\<close>

definition dusk_map :: TerrainModifier where
  "dusk_map = roofed_map\<lparr>getGlobalShade := 6\<rparr>"

section \<open>Properties of the model\<close>

subsection \<open>Positions, directions and blockage\<close>

lemma Pos_sel [simp]: "pos_x (Pos a b c) = a" "pos_y (Pos a b c) = b" "pos_z (Pos a b c) = c"
  by (simp_all add: Pos_def)

lemma Pos_eq [simp]: "Pos a b c = Pos a' b' c' \<longleftrightarrow> a = a' \<and> b = b' \<and> c = c'"
  by (simp add: Pos_def)

lemma vectorToDirection_cases:
  "vectorToDirection mem v =
     (if pos_x v = 0 \<and> pos_y v = 1 then Inr 0
      else if pos_x v = 1 \<and> pos_y v = 1 then Inr 1
      else if pos_x v = 1 \<and> pos_y v = 0 then Inr 2
      else if pos_x v = 1 \<and> pos_y v = -1 then Inr 3
      else if pos_x v = 0 \<and> pos_y v = -1 then Inr 4
      else if pos_x v = -1 \<and> pos_y v = -1 then Inr 5
      else if pos_x v = -1 \<and> pos_y v = 0 then Inr 6
      else if pos_x v = -1 \<and> pos_y v = 1 then Inr 7
      else Inl ArrayBounds)"
  by (simp add: vectorToDirection_def table_read_def dir_x_def dir_y_def)




text \<open>
  What the cells after the tables hold makes no difference to the engine: it stops at the
  read.
\<close>

lemma horizontalBlockage_mem:
  "horizontalBlockage mem s startTile endTile type = horizontalBlockage mem' s startTile endTile type"
  by (cases startTile; cases endTile) (simp_all add: horizontalBlockage_def vectorToDirection_cases)

lemma round_sqrt_0: "round_sqrt 0 = 0"
  by (simp add: round_sqrt_def)

lemma round_sqrt_eq:
  assumes "0 \<le> r" "r * r - r < n" "n \<le> r * r + r"
  shows "round_sqrt n = r"
proof -
  have lo: "real_of_int r - 1 / 2 \<le> sqrt (real_of_int n)"
  proof (rule real_le_rsqrt)
    have "real_of_int (r * r - r + 1) \<le> real_of_int n"
      using assms(2) by linarith
    then show "(real_of_int r - 1 / 2)\<^sup>2 \<le> real_of_int n"
      by (simp add: power2_eq_square algebra_simps)
  qed
  have hi: "sqrt (real_of_int n) < real_of_int r + 1 / 2"
  proof (rule real_less_lsqrt)
    show "0 \<le> real_of_int r + 1 / 2" using assms(1) by simp
    have "real_of_int n \<le> real_of_int (r * r + r)"
      using assms(3) by linarith
    then show "real_of_int n < (real_of_int r + 1 / 2)\<^sup>2"
      by (simp add: power2_eq_square algebra_simps)
  qed
  show ?thesis
    unfolding round_sqrt_def
    by (rule floor_unique) (use lo hi in linarith)+
qed

lemma round_sqrt_small: "round_sqrt 1 = 1" "round_sqrt 2 = 1" "round_sqrt 4 = 2"
  "round_sqrt 5 = 2" "round_sqrt 8 = 3"
  by (simp_all add: round_sqrt_eq)

lemma upto_small: "[0 .. 0::int] = [0]" "[0 .. 1::int] = [0, 1]" "[0 .. 2::int] = [0, 1, 2]"
  "[1 .. 1::int] = [1]"
  by (simp_all add: upto.simps)

subsection \<open>Relations kept by the visibility sweep\<close>

lemma engine_relD:
  assumes "engine_rel okT okU R"
  shows "R s s"
    and "R a b \<Longrightarrow> R b c \<Longrightarrow> R a c"
    and "okT tileop \<Longrightarrow> R s (tile_call p tileop s)"
    and "okU uop \<Longrightarrow> R s (unit_call i uop s)"
    and "R s (s\<lparr>fault := Some f\<rparr>)"
    and "R s (s\<lparr>rng_calls := n\<rparr>)"
  using assms unfolding engine_rel_def by blast+

lemma fold_rel:
  assumes "engine_rel okT okU R" and "\<And>x s. R s (f x s)"
  shows "R s (fold f xs s)"
proof (induction xs arbitrary: s)
  case Nil
  show ?case by (simp add: engine_relD(1) [OF assms(1)])
next
  case (Cons x xs)
  have "R s (f x s)" by (rule assms(2))
  moreover have "R (f x s) (fold f xs (f x s))" by (rule Cons.IH)
  ultimately show ?case
    by (simp add: engine_relD(2) [OF assms(1)])
qed

lemma checkForVisibleUnits_rel:
  assumes "engine_rel okT okU R" "\<And>b. okU (AddToVisibleUnits b)"
  shows "R s (snd (checkForVisibleUnits unit tile s))"
  using engine_relD(1,4,5) [OF assms(1)] assms(2)
  by (simp add: checkForVisibleUnits_def Let_def split: option.splits sum.splits prod.splits)

lemma fov_reveal_door_rel:
  assumes "engine_rel okT okU R" "okT (SetDiscovered True)"
  shows "R s (fov_reveal_door t part s)"
  using engine_relD(1,3) [OF assms(1)] assms(2)
  by (simp add: fov_reveal_door_def split: option.splits)

lemma fov_see_rel:
  assumes e: "engine_rel okT okU R" and d: "okT (SetDiscovered True)"
    and u: "\<And>b. okU (AddToVisibleUnits b)"
  shows "R (tile_call dest (SetChecked True) s) (fov_see unit dest s)"
proof -
  let ?s1 = "tile_call dest (SetChecked True) s"
  let ?s2 = "snd (checkForVisibleUnits unit dest ?s1)"
  let ?s3 = "tile_call dest (SetDiscovered True) ?s2"
  let ?s4 = "fov_reveal_door (getTile ?s3 (Pos (pos_x dest + 1) (pos_y dest) (pos_z dest)))
               O_WESTWALL ?s3"
  let ?s5 = "fov_reveal_door (getTile ?s4 (Pos (pos_x dest) (pos_y dest - 1) (pos_z dest)))
               O_NORTHWALL ?s4"
  note trans = engine_relD(2) [OF e]
  have 2: "R ?s1 ?s2" by (rule checkForVisibleUnits_rel [OF e u])
  have 3: "R ?s1 ?s3" by (rule trans [OF 2 engine_relD(3) [OF e d]])
  have 4: "R ?s1 ?s4" by (rule trans [OF 3 fov_reveal_door_rel [OF e d]])
  have 5: "R ?s1 ?s5" by (rule trans [OF 4 fov_reveal_door_rel [OF e d]])
  show ?thesis
    using 2 5 by (simp add: fov_see_def Let_def)
qed

lemma calculateFOV_ray_rel:
  assumes e: "engine_rel okT okU R" and c: "okT (SetChecked True)" and d: "okT (SetDiscovered True)"
    and u: "\<And>b. okU (AddToVisibleUnits b)"
  shows "R s (calculateFOV_ray mem unit upos fi te s origin l power_left)"
proof (induction mem unit upos fi te s origin l power_left rule: calculateFOV_ray.induct)
  case (1 mem unit upos fi te s origin l power_left)
  note refl = engine_relD(1) [OF e] and trans = engine_relD(2) [OF e]
  show ?case
  proof (cases "power_left > 0 \<and> fault s = None")
    case False
    then have "calculateFOV_ray mem unit upos fi te s origin l power_left = s"
      by (subst calculateFOV_ray.simps) auto
    then show ?thesis by (simp add: refl)
  next
    case True
    show ?thesis
    proof (cases "getTile s (fov_cell upos fi te (l + 1))")
      case None
      with True have "calculateFOV_ray mem unit upos fi te s origin l power_left = s"
        by (subst calculateFOV_ray.simps) simp
      then show ?thesis by (simp add: refl)
    next
      case (Some dest)
      show ?thesis
      proof (cases "horizontalBlockage mem s origin (Some dest) DT_NONE")
        case (Inl f)
        with True Some
        have "calculateFOV_ray mem unit upos fi te s origin l power_left = s\<lparr>fault := Some f\<rparr>"
          by (subst calculateFOV_ray.simps) simp
        then show ?thesis by (simp add: engine_relD(5) [OF e])
      next
        case (Inr hb)
        define p3 where "p3 = power_left - 1 - hb - verticalBlockage s origin (Some dest) DT_NONE"
        define s' where "s' = (if p3 > 0 \<and> getShade (tiles s dest) < 10 \<and> \<not> getChecked (tiles s dest)
                          then fov_see unit dest s else s)"
        have "R s (fov_see unit dest s)"
          by (rule trans [OF engine_relD(3) [OF e c] fov_see_rel [OF e d u]])
        then have step: "R s s'"
          by (simp add: s'_def refl)
        have "R s' (calculateFOV_ray mem unit upos fi te s' (Some dest) (l + 1)
                (p3 - objectFalloff s dest DT_NONE))"
          using "1.IH" [OF True Some Inr HOL.refl HOL.refl HOL.refl HOL.refl HOL.refl]
          by (simp add: p3_def s'_def)
        with step have "R s (calculateFOV_ray mem unit upos fi te s' (Some dest) (l + 1)
                (p3 - objectFalloff s dest DT_NONE))"
          by (rule trans)
        moreover have "calculateFOV_ray mem unit upos fi te s origin l power_left
            = calculateFOV_ray mem unit upos fi te s' (Some dest) (l + 1)
                (p3 - objectFalloff s dest DT_NONE)"
          using True Some Inr by (subst calculateFOV_ray.simps) (simp add: Let_def p3_def s'_def)
        ultimately show ?thesis by simp
      qed
    qed
  qed
qed

lemma calculateFOV_sweep_rel:
  assumes e: "engine_rel okT okU R" and c: "okT (SetChecked True)" and d: "okT (SetDiscovered True)"
    and u: "\<And>b. okU (AddToVisibleUnits b)"
  shows "R s (calculateFOV_sweep mem unit upos fi s)"
proof -
  have "R s (fold (\<lambda>te s. if fault s \<noteq> None then s
                         else calculateFOV_ray mem unit upos fi te s (getTile s upos) 0 20) tes s)"
    for tes
    by (rule fold_rel [OF e]) (simp add: engine_relD(1) [OF e] calculateFOV_ray_rel [OF e c d u])
  then show ?thesis
    by (simp add: calculateFOV_sweep_def Let_def engine_relD(1,5) [OF e])
qed

lemma calculateFOV_rays_rel:
  assumes e: "engine_rel okT okU R" and c: "okT (SetChecked True)" and d: "okT (SetDiscovered True)"
    and u: "\<And>b. okU (AddToVisibleUnits b)"
  shows "R s (calculateFOV_rays mem unit s)"
  unfolding calculateFOV_rays_def Let_def
  by (rule fold_rel [OF e]) (rule calculateFOV_sweep_rel [OF e c d u])

lemma calculateFOV_clear_rel:
  assumes e: "engine_rel okT okU R" and c: "okT (SetChecked False)"
  shows "R s (calculateFOV_clear s)"
  unfolding calculateFOV_clear_def
  by (rule fold_rel [OF e]) (rule engine_relD(3) [OF e c])



lemma Tile_apply_checked: "op \<noteq> SetChecked False \<Longrightarrow> getChecked t \<Longrightarrow> getChecked (Tile_apply op t)"
  by (cases op) auto

lemma Tile_apply_discovered:
  "op \<noteq> SetDiscovered False \<Longrightarrow> isDiscovered t \<Longrightarrow> isDiscovered (Tile_apply op t)"
  by (cases op) auto

lemma checked_kept_rel: "engine_rel (\<lambda>op. op \<noteq> SetChecked False) (\<lambda>op. True) checked_kept"
  by (auto simp: engine_rel_def checked_kept_def tile_call_def unit_call_def Tile_apply_checked)

lemma discovered_kept_rel:
  "engine_rel (\<lambda>op. op \<noteq> SetDiscovered False) (\<lambda>op. True) discovered_kept"
  by (auto simp: engine_rel_def discovered_kept_def tile_call_def unit_call_def
      Tile_apply_discovered)

lemma calls_added_refl: "calls_added P s s"
  by (simp add: calls_added_def)

lemma calls_added_trans:
  assumes "calls_added P a b" "calls_added P b c"
  shows "calls_added P a c"
proof -
  from assms obtain cs ds
    where "calls b = calls a @ cs" "list_all P cs" "calls c = calls b @ ds" "list_all P ds"
    unfolding calls_added_def by blast
  then have "calls c = calls a @ (cs @ ds) \<and> list_all P (cs @ ds)" by simp
  then show ?thesis unfolding calls_added_def by blast
qed

lemma calls_added_tile: "P (TileCall p op) \<Longrightarrow> calls_added P s (tile_call p op s)"
  by (simp add: calls_added_def tile_call_def)

lemma calls_added_unit: "P (UnitCall i op) \<Longrightarrow> calls_added P s (unit_call i op s)"
  by (simp add: calls_added_def unit_call_def)

lemma calls_added_same: "calls s' = calls s \<Longrightarrow> calls_added P s s'"
  by (simp add: calls_added_def)

lemma calls_added_rel:
  "engine_rel (\<lambda>op. \<forall>p. P (TileCall p op)) (\<lambda>op. \<forall>i. P (UnitCall i op)) (calls_added P)"
  unfolding engine_rel_def
  by (intro conjI allI impI)
    (auto intro: calls_added_refl calls_added_tile calls_added_unit calls_added_same
      elim: calls_added_trans)

lemma Position_eta: "Pos (pos_x p) (pos_y p) (pos_z p) = (p::Position)"
  by (simp add: Pos_def)

lemma in_concat_map: "x \<in> set xs \<Longrightarrow> y \<in> set (f x) \<Longrightarrow> y \<in> set (concat (map f xs))"
  by auto

lemma Pos_in_getTiles:
  assumes "0 \<le> a" "a \<le> getWidth s - 1" "0 \<le> b" "b \<le> getLength s - 1"
    "0 \<le> c" "c \<le> getHeight s - 1"
  shows "Pos a b c \<in> set (getTiles s)"
  unfolding getTiles_def
proof (rule in_concat_map [where x = c])
  show "c \<in> set [0 .. getHeight s - 1]" using assms by simp
  show "Pos a b c \<in> set (concat (map (\<lambda>b. map (\<lambda>a. Pos a b c) [0 .. getWidth s - 1])
                                      [0 .. getLength s - 1]))"
  proof (rule in_concat_map [where x = b])
    show "b \<in> set [0 .. getLength s - 1]" using assms by simp
    show "Pos a b c \<in> set (map (\<lambda>a. Pos a b c) [0 .. getWidth s - 1])"
      using assms by (simp add: image_iff)
  qed
qed

lemma getTiles_member:
  assumes "getTile s p = Some p"
  shows "p \<in> set (getTiles s)"
proof -
  from assms have b: "0 \<le> pos_x p" "pos_x p \<le> getWidth s - 1" "0 \<le> pos_y p"
    "pos_y p \<le> getLength s - 1" "0 \<le> pos_z p" "pos_z p \<le> getHeight s - 1"
    by (auto simp: getTile_def split: if_splits)
  then have "Pos (pos_x p) (pos_y p) (pos_z p) \<in> set (getTiles s)"
    by (rule Pos_in_getTiles)
  then show ?thesis by (simp add: Position_eta)
qed

lemma fold_tile_call_other:
  "p \<notin> set ps \<Longrightarrow> tiles (fold (\<lambda>q. tile_call q op) ps s) p = tiles s p"
  by (induction ps arbitrary: s) (auto simp: tile_call_def)

lemma clear_unchecks:
  "p \<in> set ps \<Longrightarrow> \<not> getChecked (tiles (fold (\<lambda>q. tile_call q (SetChecked False)) ps s) p)"
proof (induction ps arbitrary: s)
  case Nil
  then show ?case by simp
next
  case (Cons q ps)
  have unfold: "fold (\<lambda>q. tile_call q (SetChecked False)) (q # ps) s
      = fold (\<lambda>q. tile_call q (SetChecked False)) ps (tile_call q (SetChecked False) s)"
    by simp
  show ?case
  proof (cases "p \<in> set ps")
    case True
    then show ?thesis unfolding unfold by (rule Cons.IH)
  next
    case False
    with Cons.prems have "p = q" by simp
    have "tiles (fold (\<lambda>q. tile_call q (SetChecked False)) ps (tile_call q (SetChecked False) s)) p
        = tiles (tile_call q (SetChecked False) s) p"
      using False by (rule fold_tile_call_other)
    moreover have "\<not> getChecked (tiles (tile_call q (SetChecked False) s) p)"
      by (simp add: tile_call_def \<open>p = q\<close>)
    ultimately show ?thesis unfolding unfold by simp
  qed
qed

lemma calculateFOV_clear_unchecks:
  "getTile s p = Some p \<Longrightarrow> \<not> getChecked (tiles (calculateFOV_clear s) p)"
  unfolding calculateFOV_clear_def by (rule clear_unchecks) (rule getTiles_member)

lemma getTile_cong:
  "getWidth s' = getWidth s \<Longrightarrow> getLength s' = getLength s \<Longrightarrow> getHeight s' = getHeight s
    \<Longrightarrow> getTile s' = getTile s"
  by (rule ext) (simp add: getTile_def)

lemma getTiles_cong:
  "getWidth s' = getWidth s \<Longrightarrow> getLength s' = getLength s \<Longrightarrow> getHeight s' = getHeight s
    \<Longrightarrow> getTiles s' = getTiles s"
  by (simp add: getTiles_def)

lemma calculateFOV_discover_dims:
  "getWidth (calculateFOV_discover unit s) = getWidth s"
  "getLength (calculateFOV_discover unit s) = getLength s"
  "getHeight (calculateFOV_discover unit s) = getHeight s"
  by (simp_all add: calculateFOV_discover_def tile_call_def split: option.splits)

lemma unit_call_dims:
  "getWidth (unit_call i op s) = getWidth s"
  "getLength (unit_call i op s) = getLength s"
  "getHeight (unit_call i op s) = getHeight s"
  by (simp_all add: unit_call_def)

lemma angle_steps_head:
  "lo \<le> hi \<Longrightarrow> 0 < step \<Longrightarrow> angle_steps lo hi step = lo # tl (angle_steps lo hi step)"
proof -
  assume a: "lo \<le> hi" "0 < step"
  then have "0 \<le> (hi - lo) div step" by (simp add: pos_imp_zdiv_nonneg_iff)
  then have "0 < nat ((hi - lo) div step + 1)" by simp
  then have "[0 ..< nat ((hi - lo) div step + 1)] = 0 # [Suc 0 ..< nat ((hi - lo) div step + 1)]"
    by (rule upt_conv_Cons)
  then show ?thesis
    by (simp add: angle_steps_def)
qed

lemma fov_see_checked: "getChecked (tiles (fov_see unit dest s) dest)"
proof -
  have "checked_kept (tile_call dest (SetChecked True) s) (fov_see unit dest s)"
    by (rule fov_see_rel [OF checked_kept_rel]) simp_all
  moreover have "getChecked (tiles (tile_call dest (SetChecked True) s) dest)"
    by (simp add: tile_call_def)
  ultimately show ?thesis by (simp add: checked_kept_def)
qed

subsection \<open>Relations kept by explosions, light and fire\<close>

lemma getTile_Some: "getTile s p = Some t \<Longrightarrow> t = p"
  by (simp add: getTile_def split: if_splits)











lemma fold_tile_call_calls:
  "calls (fold (\<lambda>p. tile_call p op) ps s) = calls s @ map (\<lambda>p. TileCall p op) ps"
  by (induction ps arbitrary: s) (simp_all add: tile_call_def)











subsection \<open>Calls and tiles in closed form\<close>

lemma fold_calls_concat:
  assumes "\<And>x t. I t \<Longrightarrow> I (f x t) \<and> calls (f x t) = calls t @ g x" and "I s"
  shows "I (fold f xs s) \<and> calls (fold f xs s) = calls s @ concat (map g xs)"
  using assms(2) by (induction xs arbitrary: s) (simp_all add: assms(1))

lemma addLight_at_calls:
  assumes "dims_kept s t"
  shows "dims_kept s (addLight_at p v layer t)
    \<and> calls (addLight_at p v layer t)
        = calls t @ map (\<lambda>q. TileCall q (AddLight v layer)) (filter (\<lambda>q. getTile s q \<noteq> None) [p])"
proof -
  have g: "getTile t = getTile s"
    using assms by (intro getTile_cong) (simp_all add: dims_kept_def)
  show ?thesis
  proof (cases "getTile s p")
    case None
    then show ?thesis using assms by (simp add: addLight_at_def g)
  next
    case (Some q)
    then have "q = p" by (rule getTile_Some)
    with Some assms show ?thesis
      by (simp add: addLight_at_def g tile_call_def dims_kept_def)
  qed
qed

lemma addLight_cell_calls:
  assumes "dims_kept s t"
  shows "dims_kept s (addLight_cell center pw layer x y z t)
    \<and> calls (addLight_cell center pw layer x y z t)
        = calls t @ map (\<lambda>q. TileCall q (AddLight (pw - round_sqrt (x * x + y * y)) layer))
            (filter (\<lambda>q. getTile s q \<noteq> None)
               [Pos (pos_x center + x) (pos_y center + y) z,
                Pos (pos_x center - x) (pos_y center - y) z,
                Pos (pos_x center - x) (pos_y center + y) z,
                Pos (pos_x center + x) (pos_y center - y) z])"
proof -
  define d where "d = pw - round_sqrt (x * x + y * y)"
  define s1 where "s1 = addLight_at (Pos (pos_x center + x) (pos_y center + y) z) d layer t"
  define s2 where "s2 = addLight_at (Pos (pos_x center - x) (pos_y center - y) z) d layer s1"
  define s3 where "s3 = addLight_at (Pos (pos_x center - x) (pos_y center + y) z) d layer s2"
  define s4 where "s4 = addLight_at (Pos (pos_x center + x) (pos_y center - y) z) d layer s3"
  note 1 = addLight_at_calls [OF assms, of "Pos (pos_x center + x) (pos_y center + y) z" d layer,
      folded s1_def]
  note 2 = addLight_at_calls [OF 1 [THEN conjunct1],
      of "Pos (pos_x center - x) (pos_y center - y) z" d layer, folded s2_def]
  note 3 = addLight_at_calls [OF 2 [THEN conjunct1],
      of "Pos (pos_x center - x) (pos_y center + y) z" d layer, folded s3_def]
  note 4 = addLight_at_calls [OF 3 [THEN conjunct1],
      of "Pos (pos_x center + x) (pos_y center - y) z" d layer, folded s4_def]
  have "addLight_cell center pw layer x y z t = s4"
    by (simp add: addLight_cell_def Let_def s1_def s2_def s3_def s4_def d_def)
  moreover have "calls s4 = calls t @ map (\<lambda>q. TileCall q (AddLight d layer))
            (filter (\<lambda>q. getTile s q \<noteq> None)
               ([Pos (pos_x center + x) (pos_y center + y) z]
                @ [Pos (pos_x center - x) (pos_y center - y) z]
                @ [Pos (pos_x center - x) (pos_y center + y) z]
                @ [Pos (pos_x center + x) (pos_y center - y) z]))"
    unfolding filter_append map_append
    using 1 [THEN conjunct2] 2 [THEN conjunct2] 3 [THEN conjunct2] 4 [THEN conjunct2]
    by simp
  ultimately show ?thesis
    using 4 [THEN conjunct1] by (simp add: d_def)
qed

lemma Tile_apply_checked_iff:
  "op \<noteq> SetChecked False \<Longrightarrow> getChecked (Tile_apply op t) \<longleftrightarrow> getChecked t \<or> op = SetChecked True"
  by (cases op) auto

lemma checked_marks_refl: "checked_marks s s"
  by (simp add: checked_marks_def)

lemma checked_marks_same:
  "calls s' = calls s \<Longrightarrow> tiles s' = tiles s \<Longrightarrow> checked_marks s s'"
  by (simp add: checked_marks_def)

lemma checked_marks_trans:
  assumes "checked_marks a b" "checked_marks b c"
  shows "checked_marks a c"
proof -
  from assms obtain cs ds where
    cs: "calls b = calls a @ cs" "list_all (\<lambda>c. \<forall>p. c \<noteq> TileCall p (SetChecked False)) cs"
      "\<forall>p. getChecked (tiles b p) \<longleftrightarrow> getChecked (tiles a p) \<or> TileCall p (SetChecked True) \<in> set cs"
    and ds: "calls c = calls b @ ds" "list_all (\<lambda>c. \<forall>p. c \<noteq> TileCall p (SetChecked False)) ds"
      "\<forall>p. getChecked (tiles c p) \<longleftrightarrow> getChecked (tiles b p) \<or> TileCall p (SetChecked True) \<in> set ds"
    unfolding checked_marks_def by blast
  have "calls c = calls a @ (cs @ ds)
      \<and> list_all (\<lambda>c. \<forall>p. c \<noteq> TileCall p (SetChecked False)) (cs @ ds)
      \<and> (\<forall>p. getChecked (tiles c p)
            \<longleftrightarrow> getChecked (tiles a p) \<or> TileCall p (SetChecked True) \<in> set (cs @ ds))"
    using cs ds by auto
  then show ?thesis
    unfolding checked_marks_def by blast
qed

lemma checked_marks_tile:
  assumes "op \<noteq> SetChecked False"
  shows "checked_marks s (tile_call p op s)"
proof -
  have "calls (tile_call p op s) = calls s @ [TileCall p op]
      \<and> list_all (\<lambda>c. \<forall>p. c \<noteq> TileCall p (SetChecked False)) [TileCall p op]
      \<and> (\<forall>q. getChecked (tiles (tile_call p op s) q)
            \<longleftrightarrow> getChecked (tiles s q) \<or> TileCall q (SetChecked True) \<in> set [TileCall p op])"
    using assms by (auto simp: tile_call_def Tile_apply_checked_iff)
  then show ?thesis
    unfolding checked_marks_def by blast
qed

lemma checked_marks_unit: "checked_marks s (unit_call i op s)"
proof (cases "i < length (units s)")
  case True
  then have "calls (unit_call i op s) = calls s @ [UnitCall i op]
      \<and> list_all (\<lambda>c. \<forall>p. c \<noteq> TileCall p (SetChecked False)) [UnitCall i op]
      \<and> (\<forall>q. getChecked (tiles (unit_call i op s) q)
            \<longleftrightarrow> getChecked (tiles s q) \<or> TileCall q (SetChecked True) \<in> set [UnitCall i op])"
    by (simp add: unit_call_def)
  then show ?thesis
    unfolding checked_marks_def by blast
next
  case False
  then show ?thesis
    by (intro checked_marks_same) (simp_all add: unit_call_def)
qed

lemma checked_marks_rel: "engine_rel (\<lambda>op. op \<noteq> SetChecked False) (\<lambda>op. True) checked_marks"
  unfolding engine_rel_def
  by (intro conjI allI impI)
    (auto intro: checked_marks_refl checked_marks_tile checked_marks_unit checked_marks_same
      elim: checked_marks_trans)

lemma terrain_kept_refl: "terrain_kept s s"
  by (simp add: terrain_kept_def)

lemma blockage_terrain:
  assumes "terrain_kept s t"
  shows "blockage t tile part type = blockage s tile part type"
proof -
  have m: "getMapData (tiles t p) = getMapData (tiles s p)"
    "doorState (tiles t p) = doorState (tiles s p)" for p
    using assms by (simp_all add: terrain_kept_def)
  have "isUfoDoorOpen (tiles t p) part = isUfoDoorOpen (tiles s p) part" for p
    by (cases "getMapData (tiles s p) part") (simp_all add: isUfoDoorOpen_def m)
  then show ?thesis
    by (cases tile) (simp_all add: blockage_def m)
qed

lemma verticalBlockage_terrain:
  assumes "terrain_kept s t"
  shows "verticalBlockage t a b type = verticalBlockage s a b type"
proof -
  have g: "getTile t = getTile s"
    using assms by (intro getTile_cong) (simp_all add: terrain_kept_def)
  have "floors_blockage t x y type zs = floors_blockage s x y type zs" for x y zs
    by (simp add: floors_blockage_def g blockage_terrain [OF assms])
  then show ?thesis
    by (cases a; cases b) (simp_all add: verticalBlockage_def Let_def)
qed

lemma calculateSunShading_tile_calls:
  assumes "terrain_kept s t"
  shows "terrain_kept s (calculateSunShading_tile p t)
    \<and> calls (calculateSunShading_tile p t)
        = calls t @
          [TileCall p (AddLight
             (if getGlobalShade s \<le> 5
                 \<and> verticalBlockage s (getTile s (Pos (pos_x p) (pos_y p) (getHeight s - 1)))
                      (Some p) DT_NONE \<noteq> 0
              then 15 - getGlobalShade s - 2 else 15 - getGlobalShade s) 0)]"
proof -
  have g: "getTile t = getTile s"
    using assms by (intro getTile_cong) (simp_all add: terrain_kept_def)
  have h: "getHeight t = getHeight s" "getGlobalShade t = getGlobalShade s"
    using assms by (simp_all add: terrain_kept_def)
  have k: "terrain_kept s (tile_call p (AddLight v 0) t)" for v
    using assms by (simp add: terrain_kept_def tile_call_def)
  show ?thesis
    by (simp add: calculateSunShading_tile_def Let_def g h verticalBlockage_terrain [OF assms] k)
      (simp add: tile_call_def)
qed

lemma calculateSunShading_calls:
  "calls (calculateSunShading s) = calls s @
     map (\<lambda>p. TileCall p (AddLight
             (if getGlobalShade s \<le> 5
                 \<and> verticalBlockage s (getTile s (Pos (pos_x p) (pos_y p) (getHeight s - 1)))
                      (Some p) DT_NONE \<noteq> 0
              then 15 - getGlobalShade s - 2 else 15 - getGlobalShade s) 0)) (getTiles s)"
proof -
  have "calls (fold calculateSunShading_tile ps s) = calls s @ concat (map (\<lambda>p.
          [TileCall p (AddLight
             (if getGlobalShade s \<le> 5
                 \<and> verticalBlockage s (getTile s (Pos (pos_x p) (pos_y p) (getHeight s - 1)))
                      (Some p) DT_NONE \<noteq> 0
              then 15 - getGlobalShade s - 2 else 15 - getGlobalShade s) 0)]) ps)" for ps
    by (intro fold_calls_concat [where I = "terrain_kept s", THEN conjunct2]
        calculateSunShading_tile_calls terrain_kept_refl)
  then show ?thesis
    by (simp add: calculateSunShading_def concat_map_singleton)
qed


















subsection \<open>The example maps\<close>

lemma scout_start_facts:
  "fault scout_start = None"
  "units scout_start = [scout]"
  "getWidth scout_start = 2" "getLength scout_start = 1" "getHeight scout_start = 1"
  "getMapData (tiles scout_start p) part = None"
  "getShade (tiles scout_start p) = 0"
  "\<not> getChecked (tiles scout_start p)"
  by (simp_all add: scout_start_def calculateFOV_clear_def calculateFOV_discover_def
      unit_call_def tile_call_def getTiles_def getTile_def scout_map_def scout_def empty_map_def
      empty_tile_def upto_small)

lemma fov_cell_ahead: "fov_cell (Pos 0 0 0) 0 0 (Suc 0) = Pos 1 0 0"
  by (simp add: fov_cell_def)

lemma blockage_no_parts:
  "\<forall>p part. getMapData (tiles s p) part = None \<Longrightarrow> blockage s tile part type = 0"
  by (cases tile) (simp_all add: blockage_def isUfoDoorOpen_def)

lemma hb_no_parts:
  assumes "\<forall>p part. getMapData (tiles s p) part = None"
  shows "horizontalBlockage mem s (Some a) (Some b) type
     = (case vectorToDirection mem (pos_minus b a) of Inl f \<Rightarrow> Inl f | Inr d \<Rightarrow> Inr 0)"
  by (cases "vectorToDirection mem (pos_minus b a)")
    (simp_all add: horizontalBlockage_def blockage_no_parts [OF assms])

text \<open>
  On \<open>scout_map\<close> the first ray of the sweep (both angles 0) reaches tile (1,0,0) on its
  first step and marks it; the flag is still set when \<^verbatim>\<open>calculateFOV\<close> returns.
\<close>

lemma scout_map_marked:
  "getChecked (tiles (calculateFOV (0, 0) 0 scout_map) (Pos 1 0 0))"
proof -
  let ?sweep = "calculateFOV_sweep (0, 0) 0 (Pos 0 0 0)"
  let ?ray = "\<lambda>te s. if fault s \<noteq> None then s
                 else calculateFOV_ray (0, 0) 0 (Pos 0 0 0) 0 te s (getTile s (Pos 0 0 0)) 0 20"
  note f = scout_start_facts
  have start: "calculateFOV (0, 0) 0 scout_map = calculateFOV_rays (0, 0) 0 scout_start"
    by (simp add: calculateFOV_def Let_def scout_start_def calculateFOV_discover_def
        tile_call_def getTile_def scout_map_def scout_def empty_map_def)
  have rays: "calculateFOV_rays (0, 0) 0 scout_start
      = fold ?sweep (tl (angle_steps 0 60 6)) (?sweep 0 scout_start)"
  proof -
    have "calculateFOV_rays (0, 0) 0 scout_start = fold ?sweep (angle_steps 0 60 6) scout_start"
      by (simp add: calculateFOV_rays_def f scout_def)
    also have "\<dots> = fold ?sweep (0 # tl (angle_steps 0 60 6)) scout_start"
      using angle_steps_head [of 0 60 6] by simp
    finally show ?thesis by simp
  qed
  have sweep: "?sweep 0 scout_start = fold ?ray (tl (angle_steps 0 90 3)) (?ray 0 scout_start)"
  proof -
    have "?sweep 0 scout_start = fold ?ray (angle_steps 0 90 3) scout_start"
      by (simp add: calculateFOV_sweep_def f scout_def startAngle_def endAngle_def)
    also have "\<dots> = fold ?ray (0 # tl (angle_steps 0 90 3)) scout_start"
      using angle_steps_head [of 0 90 3] by simp
    finally show ?thesis by simp
  qed
  have hb: "horizontalBlockage (0, 0) scout_start (Some (Pos 0 0 0)) (Some (Pos 1 0 0)) DT_NONE
      = Inr 0"
    by (simp add: hb_no_parts f vectorToDirection_cases pos_minus_def)
  have vb: "verticalBlockage scout_start (Some (Pos 0 0 0)) (Some (Pos 1 0 0)) DT_NONE = 0"
    by (simp add: verticalBlockage_def)
  have ray: "?ray 0 scout_start
      = calculateFOV_ray (0, 0) 0 (Pos 0 0 0) 0 0 (fov_see 0 (Pos 1 0 0) scout_start)
          (Some (Pos 1 0 0)) 1 19"
    by (subst calculateFOV_ray.simps)
      (simp add: f fov_cell_ahead getTile_def hb vb objectFalloff_def)
  have "getChecked (tiles (fov_see 0 (Pos 1 0 0) scout_start) (Pos 1 0 0))"
    by (rule fov_see_checked)
  moreover have "checked_kept (fov_see 0 (Pos 1 0 0) scout_start) (?ray 0 scout_start)"
    unfolding ray by (rule calculateFOV_ray_rel [OF checked_kept_rel]) simp_all
  moreover have "checked_kept (?ray 0 scout_start) (?sweep 0 scout_start)"
    unfolding sweep
    by (rule fold_rel [OF checked_kept_rel])
      (simp add: engine_relD(1) [OF checked_kept_rel] calculateFOV_ray_rel [OF checked_kept_rel])
  moreover have "checked_kept (?sweep 0 scout_start) (calculateFOV_rays (0, 0) 0 scout_start)"
    unfolding rays
    by (rule fold_rel [OF checked_kept_rel]) (rule calculateFOV_sweep_rel [OF checked_kept_rel], simp_all)
  ultimately have "getChecked (tiles (calculateFOV_rays (0, 0) 0 scout_start) (Pos 1 0 0))"
    unfolding checked_kept_def by blast
  then show ?thesis
    by (simp add: start)
qed

lemma scout_map_tiles: "getTiles scout_map = [Pos 0 0 0, Pos 1 0 0]" "calls scout_map = []"
  by (simp_all add: getTiles_def scout_map_def empty_map_def upto_small)










section \<open>The claims\<close>

subsection \<open>C1: addLight\<close>

text \<open>
  C1, as stated, fails: it has the quadrant-mirroring iteration hand no tile its
  contribution more than once. On the strip of three tiles, with the centre at (1,0,0),
  power 2 and layer 1: for \<open>x = 0, y = 0\<close> the four mirrored positions are all the centre,
  and the code calls \<^verbatim>\<open>Tile::addLight(2, 1)\<close> on it four times; for \<open>x = 1, y = 0\<close> the
  positions coincide in pairs, and each neighbour is called twice with 1. These eight are
  all the calls made. Whatever the tile does with them, the claim fails on this input: if
  the tile adds a contribution onto the value it holds, as the claim has it, the centre
  ends with 8, not 2; if it keeps the greater of the two, a centre that held 1 ends with
  2, not with 1 + 2.
\<close>

theorem addLight_mirrors_onto_same_tile:
  "getTile strip_map (Pos 1 0 0) = Some (Pos 1 0 0)
   \<and> calls strip_map = []
   \<and> calls (addLight (Pos 1 0 0) 2 1 strip_map)
      = [TileCall (Pos 1 0 0) (AddLight 2 1), TileCall (Pos 1 0 0) (AddLight 2 1),
         TileCall (Pos 1 0 0) (AddLight 2 1), TileCall (Pos 1 0 0) (AddLight 2 1),
         TileCall (Pos 2 0 0) (AddLight 1 1), TileCall (Pos 0 0 0) (AddLight 1 1),
         TileCall (Pos 0 0 0) (AddLight 1 1), TileCall (Pos 2 0 0) (AddLight 1 1)]
   \<and> replay (+) (Pos 1 0 0) 1 (calls (addLight (Pos 1 0 0) 2 1 strip_map)) 0 = 8
   \<and> replay max (Pos 1 0 0) 1 (calls (addLight (Pos 1 0 0) 2 1 strip_map)) 1 = 2"
proof -
  have c: "calls (addLight (Pos 1 0 0) 2 1 strip_map)
      = [TileCall (Pos 1 0 0) (AddLight 2 1), TileCall (Pos 1 0 0) (AddLight 2 1),
         TileCall (Pos 1 0 0) (AddLight 2 1), TileCall (Pos 1 0 0) (AddLight 2 1),
         TileCall (Pos 2 0 0) (AddLight 1 1), TileCall (Pos 0 0 0) (AddLight 1 1),
         TileCall (Pos 0 0 0) (AddLight 1 1), TileCall (Pos 2 0 0) (AddLight 1 1)]"
    by (simp add: addLight_def addLight_cell_def addLight_at_def getTile_def tile_call_def
        strip_map_def empty_map_def empty_tile_def round_sqrt_0 round_sqrt_small upto_small
        Let_def)
  show ?thesis
    unfolding c by (simp add: replay_def getTile_def strip_map_def empty_map_def)
qed

text \<open>
  C1, amended: \<^verbatim>\<open>addLight\<close> calls \<^verbatim>\<open>Tile::addLight(power - round(sqrt(x*x + y*y)), layer)\<close>,
  for \<open>x\<close> and \<open>y\<close> from 0 to the power and every level \<open>z\<close> of the map, on each of the four
  mirrored positions (cx+x, cy+y), (cx-x, cy-y), (cx-x, cy+y), (cx+x, cy-y) of that level
  that is a tile of the map, in this order and with no occlusion test. Positions that
  coincide are called again: the tiles of the centre's column four times with the power,
  the tiles on the two axes through the centre twice. What the light of a tile is
  afterwards is for \<^verbatim>\<open>Tile::addLight\<close> to decide.
\<close>

theorem addLight_calls_every_mirror:
  "calls (addLight center pw layer s) = calls s @
     concat (map (\<lambda>x. concat (map (\<lambda>y. concat (map (\<lambda>z.
        map (\<lambda>q. TileCall q (AddLight (pw - round_sqrt (x * x + y * y)) layer))
            (filter (\<lambda>q. getTile s q \<noteq> None)
               [Pos (pos_x center + x) (pos_y center + y) z,
                Pos (pos_x center - x) (pos_y center - y) z,
                Pos (pos_x center - x) (pos_y center + y) z,
                Pos (pos_x center + x) (pos_y center - y) z]))
        [0 .. getHeight s - 1])) [0 .. pw])) [0 .. pw])"
proof -
  have "dims_kept s s" by (simp add: dims_kept_def)
  then show ?thesis
    unfolding addLight_def
    by (intro fold_calls_concat [where I = "dims_kept s", THEN conjunct2]
        fold_calls_concat [where I = "dims_kept s"] addLight_cell_calls)
qed

text \<open>
  C1, the amended claim at work on the one-tile map of two levels, with power 0: the
  tile of each level is called four times.
\<close>

theorem addLight_calls_every_mirror_witness:
  "calls (addLight (Pos 0 0 0) 0 2 (empty_map 1 1 2))
     = [TileCall (Pos 0 0 0) (AddLight 0 2), TileCall (Pos 0 0 0) (AddLight 0 2),
        TileCall (Pos 0 0 0) (AddLight 0 2), TileCall (Pos 0 0 0) (AddLight 0 2),
        TileCall (Pos 0 0 1) (AddLight 0 2), TileCall (Pos 0 0 1) (AddLight 0 2),
        TileCall (Pos 0 0 1) (AddLight 0 2), TileCall (Pos 0 0 1) (AddLight 0 2)]"
  using addLight_calls_every_mirror [of "Pos 0 0 0" 0 2 "empty_map 1 1 2"]
  by (simp add: getTile_def empty_map_def upto_small round_sqrt_0)

subsection \<open>C2: the checked flags of a sweep\<close>

text \<open>
  C2, as stated, fails. On \<open>scout_map\<close> the flag of tile (1,0,0) is false before
  \<^verbatim>\<open>calculateFOV\<close>; the first ray (vertical angle 0, horizontal angle 0) reaches that
  tile on its first step with power 19 and marks it, and nothing clears the flag again:
  it is true when \<^verbatim>\<open>calculateFOV\<close> returns.
\<close>

theorem calculateFOV_leaves_checked:
  "\<not> getChecked (tiles scout_map (Pos 1 0 0))
   \<and> getChecked (tiles (calculateFOV (0, 0) 0 scout_map) (Pos 1 0 0))"
  using scout_map_marked by (simp add: scout_map_def empty_tile_def)

text \<open>
  C2, amended: \<^verbatim>\<open>calculateFOV(unit)\<close>, for a unit standing on a tile of the map and an
  engine that has not stopped, first discovers that tile if the unit is the player's, clears the unit's visible units, and
  clears the checked flag of every tile, in the order of the grid: the rays start from
  a state \<open>s0\<close> in which every flag of the map is false. The calls of the rays (\<open>marks\<close>)
  never clear a flag, and when \<^verbatim>\<open>calculateFOV\<close> returns or stops, a tile of the map is
  checked exactly when one of those calls set its flag: what the sweep marked stays
  marked.
\<close>

theorem calculateFOV_checked_flags:
  assumes "unit < length (units s)" "getTile s (getPosition (units s ! unit)) \<noteq> None"
    "fault s = None"
  shows "\<exists>s0 marks.
      calculateFOV mem unit s = calculateFOV_rays mem unit s0
    \<and> calls s0 = calls s
        @ (if getFaction (units s ! unit) = FACTION_PLAYER
           then [TileCall (getPosition (units s ! unit)) (SetDiscovered True)] else [])
        @ UnitCall unit ClearVisibleUnits
        # map (\<lambda>p. TileCall p (SetChecked False)) (getTiles s)
    \<and> (\<forall>p. getTile s p = Some p \<longrightarrow> \<not> getChecked (tiles s0 p))
    \<and> calls (calculateFOV mem unit s) = calls s0 @ marks
    \<and> list_all (\<lambda>c. \<forall>p. c \<noteq> TileCall p (SetChecked False)) marks
    \<and> (\<forall>p. getTile s p = Some p \<longrightarrow>
          (getChecked (tiles (calculateFOV mem unit s) p)
             \<longleftrightarrow> TileCall p (SetChecked True) \<in> set marks))"
proof -
  define upos where "upos = getPosition (units s ! unit)"
  define s1 where "s1 = calculateFOV_discover unit s"
  define s2 where "s2 = unit_call unit ClearVisibleUnits s1"
  define s0 where "s0 = calculateFOV_clear s2"
  have tile: "getTile s upos = Some upos"
    using assms(2) by (auto simp: upos_def getTile_def split: if_splits)
  have f1: "fault s1 = None"
    using assms(3) tile by (simp add: s1_def calculateFOV_discover_def tile_call_def upos_def)
  have c1: "calls s1 = calls s
        @ (if getFaction (units s ! unit) = FACTION_PLAYER
           then [TileCall upos (SetDiscovered True)] else [])"
    using tile by (simp add: s1_def calculateFOV_discover_def tile_call_def upos_def)
  have "length (units s1) = length (units s)"
    by (simp add: s1_def calculateFOV_discover_def tile_call_def split: option.splits)
  then have c2: "calls s2 = calls s1 @ [UnitCall unit ClearVisibleUnits]"
    using assms(1) by (simp add: s2_def unit_call_def)
  have g2: "getTile s2 = getTile s" and t2: "getTiles s2 = getTiles s"
    by (rule getTile_cong getTiles_cong;
        simp add: s2_def s1_def unit_call_dims calculateFOV_discover_dims)+
  have c0: "calls s0 = calls s2 @ map (\<lambda>p. TileCall p (SetChecked False)) (getTiles s)"
    by (simp add: s0_def calculateFOV_clear_def fold_tile_call_calls t2)
  have u0: "\<not> getChecked (tiles s0 p)" if "getTile s p = Some p" for p
    unfolding s0_def using that by (intro calculateFOV_clear_unchecks) (simp add: g2)
  have run: "calculateFOV mem unit s = calculateFOV_rays mem unit s0"
    using assms(1) f1 by (simp add: calculateFOV_def Let_def s1_def [symmetric] s2_def s0_def)
  have "checked_marks s0 (calculateFOV_rays mem unit s0)"
    by (rule calculateFOV_rays_rel [OF checked_marks_rel]) simp_all
  then obtain marks where marks: "calls (calculateFOV_rays mem unit s0) = calls s0 @ marks"
    "list_all (\<lambda>c. \<forall>p. c \<noteq> TileCall p (SetChecked False)) marks"
    "\<forall>p. getChecked (tiles (calculateFOV_rays mem unit s0) p)
          \<longleftrightarrow> getChecked (tiles s0 p) \<or> TileCall p (SetChecked True) \<in> set marks"
    unfolding checked_marks_def by blast
  have "calculateFOV mem unit s = calculateFOV_rays mem unit s0
    \<and> calls s0 = calls s
        @ (if getFaction (units s ! unit) = FACTION_PLAYER
           then [TileCall upos (SetDiscovered True)] else [])
        @ UnitCall unit ClearVisibleUnits
        # map (\<lambda>p. TileCall p (SetChecked False)) (getTiles s)
    \<and> (\<forall>p. getTile s p = Some p \<longrightarrow> \<not> getChecked (tiles s0 p))
    \<and> calls (calculateFOV mem unit s) = calls s0 @ marks
    \<and> list_all (\<lambda>c. \<forall>p. c \<noteq> TileCall p (SetChecked False)) marks
    \<and> (\<forall>p. getTile s p = Some p \<longrightarrow>
          (getChecked (tiles (calculateFOV mem unit s) p)
             \<longleftrightarrow> TileCall p (SetChecked True) \<in> set marks))"
    using run c0 c1 c2 u0 marks by simp
  then show ?thesis
    unfolding upos_def by (intro exI)
qed

text \<open>
  C2, the amended claim at work on \<open>scout_map\<close>: the player's tile is discovered, the
  visible units and both flags are cleared, and among the calls of the rays is the one
  that marks tile (1,0,0), whose flag is set at the end.
\<close>

theorem calculateFOV_checked_flags_witness:
  "\<exists>marks.
      calls (calculateFOV (0, 0) 0 scout_map)
        = [TileCall (Pos 0 0 0) (SetDiscovered True), UnitCall 0 ClearVisibleUnits,
           TileCall (Pos 0 0 0) (SetChecked False), TileCall (Pos 1 0 0) (SetChecked False)]
          @ marks
    \<and> list_all (\<lambda>c. \<forall>p. c \<noteq> TileCall p (SetChecked False)) marks
    \<and> TileCall (Pos 1 0 0) (SetChecked True) \<in> set marks
    \<and> getChecked (tiles (calculateFOV (0, 0) 0 scout_map) (Pos 1 0 0))"
proof -
  have h: "0 < length (units scout_map)"
    "getTile scout_map (getPosition (units scout_map ! 0)) \<noteq> None"
    "fault scout_map = None"
    by (simp_all add: scout_map_def scout_def empty_map_def getTile_def)
  have t: "getTile scout_map (Pos 1 0 0) = Some (Pos 1 0 0)"
    "getFaction (units scout_map ! 0) = FACTION_PLAYER"
    "getPosition (units scout_map ! 0) = Pos 0 0 0"
    by (simp_all add: scout_map_def scout_def empty_map_def getTile_def)
  from calculateFOV_checked_flags [OF h, of "(0, 0)"] show ?thesis
  proof (elim exE conjE)
    fix s0 marks
    assume a: "calls s0 = calls scout_map
        @ (if getFaction (units scout_map ! 0) = FACTION_PLAYER
           then [TileCall (getPosition (units scout_map ! 0)) (SetDiscovered True)] else [])
        @ UnitCall 0 ClearVisibleUnits
        # map (\<lambda>p. TileCall p (SetChecked False)) (getTiles scout_map)"
      and b: "calls (calculateFOV (0, 0) 0 scout_map) = calls s0 @ marks"
      and c: "list_all (\<lambda>c. \<forall>p. c \<noteq> TileCall p (SetChecked False)) marks"
      and d: "\<forall>p. getTile scout_map p = Some p \<longrightarrow>
          (getChecked (tiles (calculateFOV (0, 0) 0 scout_map) p)
             \<longleftrightarrow> TileCall p (SetChecked True) \<in> set marks)"
    from a have "calls s0 = [TileCall (Pos 0 0 0) (SetDiscovered True), UnitCall 0 ClearVisibleUnits,
           TileCall (Pos 0 0 0) (SetChecked False), TileCall (Pos 1 0 0) (SetChecked False)]"
      by (simp add: t scout_map_tiles)
    moreover from d t(1) scout_map_marked have "TileCall (Pos 1 0 0) (SetChecked True) \<in> set marks"
      by blast
    ultimately have "calls (calculateFOV (0, 0) 0 scout_map)
        = [TileCall (Pos 0 0 0) (SetDiscovered True), UnitCall 0 ClearVisibleUnits,
           TileCall (Pos 0 0 0) (SetChecked False), TileCall (Pos 1 0 0) (SetChecked False)]
          @ marks
      \<and> list_all (\<lambda>c. \<forall>p. c \<noteq> TileCall p (SetChecked False)) marks
      \<and> TileCall (Pos 1 0 0) (SetChecked True) \<in> set marks
      \<and> getChecked (tiles (calculateFOV (0, 0) 0 scout_map) (Pos 1 0 0))"
      using b c scout_map_marked by simp
    then show ?thesis by (intro exI)
  qed
qed

subsection \<open>C10: the tile a player unit stands on\<close>

text \<open>
  C10: for a player-faction unit standing on a tile of the map, \<^verbatim>\<open>calculateFOV(unit)\<close>
  leaves that tile discovered, whatever the shade, the blockage and the rays; and the
  first call it makes is \<^verbatim>\<open>setDiscovered(true)\<close> on that tile, before the flags are
  cleared and the rays cast.
\<close>

theorem calculateFOV_discovers_own_tile:
  assumes "unit < length (units s)" "getFaction (units s ! unit) = FACTION_PLAYER"
    "getTile s (getPosition (units s ! unit)) \<noteq> None"
  shows "isDiscovered (tiles (calculateFOV mem unit s) (getPosition (units s ! unit)))
    \<and> (\<exists>cs. calls (calculateFOV mem unit s)
          = calls s @ TileCall (getPosition (units s ! unit)) (SetDiscovered True) # cs)"
proof -
  define upos where "upos = getPosition (units s ! unit)"
  define s1 where "s1 = calculateFOV_discover unit s"
  have tile: "getTile s upos = Some upos"
    using assms(3) by (auto simp: upos_def getTile_def split: if_splits)
  have s1: "s1 = tile_call upos (SetDiscovered True) s"
    using assms(2) tile by (simp add: s1_def calculateFOV_discover_def upos_def)
  have d1: "isDiscovered (tiles s1 upos)" and c1: "calls s1 = calls s @ [TileCall upos (SetDiscovered True)]"
    by (simp_all add: s1 tile_call_def)
  let ?s3 = "calculateFOV_clear (unit_call unit ClearVisibleUnits s1)"
  have rel: "R s1 (calculateFOV mem unit s)"
    if e: "engine_rel okT okU R" and ok: "okT (SetChecked False)" "okT (SetChecked True)"
      "okT (SetDiscovered True)" "\<And>b. okU (AddToVisibleUnits b)" "okU ClearVisibleUnits"
    for okT okU R
  proof -
    note trans = engine_relD(2) [OF e]
    have "R s1 (calculateFOV_rays mem unit ?s3)"
      by (rule trans [OF trans [OF engine_relD(4) [OF e ok(5)] calculateFOV_clear_rel [OF e ok(1)]]
            calculateFOV_rays_rel [OF e ok(2) ok(3) ok(4)]])
    then show ?thesis
      using assms(1) by (simp add: calculateFOV_def Let_def s1_def [symmetric] engine_relD(1) [OF e])
  qed
  have "discovered_kept s1 (calculateFOV mem unit s)"
    by (rule rel [OF discovered_kept_rel]) simp_all
  with d1 have "isDiscovered (tiles (calculateFOV mem unit s) upos)"
    by (simp add: discovered_kept_def)
  moreover have "calls_added (\<lambda>c. True) s1 (calculateFOV mem unit s)"
    by (rule rel [OF calls_added_rel]) simp_all
  then have "\<exists>cs. calls (calculateFOV mem unit s) = calls s @ TileCall upos (SetDiscovered True) # cs"
    by (auto simp: calls_added_def c1)
  ultimately show ?thesis by (simp add: upos_def)
qed

text \<open>
  C10 at work on \<open>dark_scout_map\<close>, where every tile has shade 15 and no ray can make a
  tile visible: the unit's own tile is discovered all the same.
\<close>

theorem calculateFOV_discovers_own_tile_witness:
  "0 < length (units dark_scout_map)
   \<and> getFaction (units dark_scout_map ! 0) = FACTION_PLAYER
   \<and> getTile dark_scout_map (getPosition (units dark_scout_map ! 0)) = Some (Pos 0 0 0)
   \<and> getShade (tiles dark_scout_map (Pos 0 0 0)) = 15
   \<and> \<not> isDiscovered (tiles dark_scout_map (Pos 0 0 0))
   \<and> isDiscovered (tiles (calculateFOV (0, 0) 0 dark_scout_map) (Pos 0 0 0))"
proof -
  have h: "0 < length (units dark_scout_map)"
    "getFaction (units dark_scout_map ! 0) = FACTION_PLAYER"
    "getTile dark_scout_map (getPosition (units dark_scout_map ! 0)) \<noteq> None"
    by (simp_all add: dark_scout_map_def scout_map_def scout_def empty_map_def getTile_def)
  have p: "getPosition (units dark_scout_map ! 0) = Pos 0 0 0"
    "getTile dark_scout_map (Pos 0 0 0) = Some (Pos 0 0 0)"
    "getShade (tiles dark_scout_map (Pos 0 0 0)) = 15"
    "\<not> isDiscovered (tiles dark_scout_map (Pos 0 0 0))"
    by (simp_all add: dark_scout_map_def scout_map_def scout_def empty_map_def empty_tile_def
        getTile_def)
  from calculateFOV_discovers_own_tile [OF h, of "(0, 0)"] h p show ?thesis
    by simp
qed

subsection \<open>C3: sun shading in full daylight\<close>

text \<open>
  C3, as stated, fails. \<open>roofed_map\<close> has global shade 0; its tile (0,0,0) lies under the
  floor of the tile above, and \<^verbatim>\<open>calculateSunShading\<close> gives it 13, not 15.
\<close>

theorem calculateSunShading_under_floor:
  "getGlobalShade roofed_map = 0
   \<and> getTile roofed_map (Pos 0 0 0) = Some (Pos 0 0 0)
   \<and> light (tiles roofed_map (Pos 0 0 0)) 0 = 0
   \<and> light (tiles (calculateSunShading roofed_map) (Pos 0 0 0)) 0 = 13
   \<and> calls roofed_map = []
   \<and> calls (calculateSunShading roofed_map)
       = [TileCall (Pos 0 0 0) (AddLight 13 0), TileCall (Pos 0 0 1) (AddLight 15 0)]"
  by (simp add: calculateSunShading_def calculateSunShading_tile_def getTiles_def
      verticalBlockage_def floors_blockage_def blockage_def tile_call_def getTile_def
      roofed_map_def put_part_def empty_map_def empty_tile_def solid_def upto_small Let_def)

text \<open>
  C3, amended: when the global shade is at most 5, full daylight included,
  \<^verbatim>\<open>calculateSunShading(tile)\<close> makes the one call \<^verbatim>\<open>tile->addLight(v, 0)\<close> where \<open>v\<close> is
  15 less the shade if the vertical blockage (channel None) from the top tile of the
  column down to the tile is zero, and 2 less than that otherwise; when the shade is above
  5 the occlusion is not looked at and \<open>v\<close> is 15 less the shade.
  \<^verbatim>\<open>calculateSunShading()\<close> makes that call for every tile, in the order of the grid, the
  blockage being that of the terrain it starts from.
\<close>

theorem calculateSunShading_daylight:
  "(getGlobalShade s \<le> 5 \<longrightarrow>
      calls (calculateSunShading_tile tile s)
        = calls s @
          [TileCall tile (AddLight
             (if verticalBlockage s (getTile s (Pos (pos_x tile) (pos_y tile) (getHeight s - 1)))
                   (Some tile) DT_NONE = 0
              then 15 - getGlobalShade s else 13 - getGlobalShade s) 0)]
    \<and> calls (calculateSunShading s)
        = calls s @
          map (\<lambda>p. TileCall p (AddLight
             (if verticalBlockage s (getTile s (Pos (pos_x p) (pos_y p) (getHeight s - 1)))
                   (Some p) DT_NONE = 0
              then 15 - getGlobalShade s else 13 - getGlobalShade s) 0)) (getTiles s))
   \<and> (5 < getGlobalShade s \<longrightarrow>
      calls (calculateSunShading_tile tile s)
        = calls s @ [TileCall tile (AddLight (15 - getGlobalShade s) 0)]
    \<and> calls (calculateSunShading s)
        = calls s @ map (\<lambda>p. TileCall p (AddLight (15 - getGlobalShade s) 0)) (getTiles s))"
proof -
  have alg: "15 - a - 2 = 13 - a" for a :: int by simp
  have eq: "(if b \<noteq> 0 then x else y) = (if b = 0 then y else x)" for b x y :: int by simp
  show ?thesis
    using calculateSunShading_tile_calls [OF terrain_kept_refl, of s tile, THEN conjunct2]
      calculateSunShading_calls [of s]
    by (simp add: alg eq cong: if_cong)
qed

text \<open>
  C3, the amended claim at work: in full daylight the tile under the floor of
  \<open>roofed_map\<close> gets 13 and the tile above it 15; at dusk (shade 6) both get 9.
\<close>

theorem calculateSunShading_daylight_witness:
  "getGlobalShade roofed_map \<le> 5
   \<and> calls (calculateSunShading roofed_map)
       = [TileCall (Pos 0 0 0) (AddLight 13 0), TileCall (Pos 0 0 1) (AddLight 15 0)]
   \<and> 5 < getGlobalShade dusk_map
   \<and> calls (calculateSunShading dusk_map)
       = [TileCall (Pos 0 0 0) (AddLight 9 0), TileCall (Pos 0 0 1) (AddLight 9 0)]"
proof -
  have shade: "getGlobalShade roofed_map = 0" "getGlobalShade dusk_map = 6"
    "getHeight roofed_map = 2" "calls roofed_map = []" "calls dusk_map = []"
    "getTiles roofed_map = [Pos 0 0 0, Pos 0 0 1]" "getTiles dusk_map = [Pos 0 0 0, Pos 0 0 1]"
    by (simp_all add: dusk_map_def roofed_map_def put_part_def empty_map_def getTiles_def
        upto_small)
  have top: "verticalBlockage roofed_map (getTile roofed_map (Pos 0 0 1))
      (Some (Pos 0 0 1)) DT_NONE = 0"
    by (simp add: verticalBlockage_def getTile_def roofed_map_def put_part_def empty_map_def)
  have below: "verticalBlockage roofed_map (getTile roofed_map (Pos 0 0 1))
      (Some (Pos 0 0 0)) DT_NONE = 255"
    by (simp add: verticalBlockage_def floors_blockage_def blockage_def getTile_def
        roofed_map_def put_part_def empty_map_def empty_tile_def solid_def upto_small)
  show ?thesis
    using calculateSunShading_daylight [of roofed_map "Pos 0 0 0"]
      calculateSunShading_daylight [of dusk_map "Pos 0 0 0"]
    by (simp add: shade top below)
qed

subsection \<open>C4: voxelCheck\<close>

text \<open>
  C4: \<^verbatim>\<open>voxelCheck\<close> should return 5 (out of map) exactly when the tile got by floor
  division of the voxel by (16,16,24) does not exist. The code divides with \<^verbatim>\<open>/\<close>, which
  truncates towards zero: on the one-tile empty map the voxel (-1,0,0), whose tile by
  floor division is (-1,0,0) and does not exist, is looked up in tile (0,0,0), and the
  result is -1 (nothing hit), not 5.
\<close>

theorem voxelCheck_truncates_negative_voxel:
  "voxelCheck (empty_map 1 1 1) (Pos (-1) 0 0) None = Inr (-1)
   \<and> getTile (empty_map 1 1 1) (Pos ((-1) div 16) (0 div 16) (0 div 24)) = None"
  by (simp add: voxelCheck_def voxelCheck_unit_def getTile_def empty_map_def empty_tile_def
      signed_divide_int_def)

subsection \<open>C5: horizontal blockage\<close>




subsection \<open>C6: one detonation pass per explosion\<close>



subsection \<open>C7: fire spreading at a new turn\<close>




subsection \<open>C8: vectorToDirection\<close>

text \<open>
  C8: \<^verbatim>\<open>vectorToDirection\<close> should return -1 for the zero vector and read its tables
  at indices 0..7 only. The loop runs to \<open>i = 8\<close>: for the zero vector it reads
  \<^verbatim>\<open>x[8]\<close>, one cell after the table. When the cells after the two tables both hold 0
  it returns 8, which is neither a direction nor -1; when they hold something else (5,
  say) it returns -1, after the same read of index 8.
\<close>

theorem vectorToDirection_reads_ninth_entry:
  "vectorToDirection_loop (0, 0) (Pos 0 0 0) 0 [] = (8, [0, 1, 2, 3, 4, 5, 6, 7, 8])
   \<and> vectorToDirection_loop (5, 5) (Pos 0 0 0) 0 [] = (-1, [0, 1, 2, 3, 4, 5, 6, 7, 8])"
  by (simp add: table_read_def dir_x_def dir_y_def)

subsection \<open>C9: absent tiles\<close>

text \<open>
  C9: no entry point should dereference an absent tile. In \<open>door_map\<close> the unit stands
  on tile (0,0,0), at the west edge, facing north, in front of a closed UFO door.
  \<^verbatim>\<open>unitOpensDoor\<close> opens the door (result 1), then looks for the door's neighbours:
  the last lookup, of (-1,0,0), is outside the map and leaves \<^verbatim>\<open>tile\<close> null; the
  call \<^verbatim>\<open>tile->getPosition()\<close> after the switch then dereferences it.
\<close>

theorem unitOpensDoor_dereferences_absent_tile:
  "getTile door_map (getPosition (units door_map ! 0)) = Some (Pos 0 0 0)
   \<and> getTile door_map (Pos (-1) 0 0) = None
   \<and> fst (unitOpensDoor (0, 0) 0 door_map) = 1
   \<and> fault (snd (unitOpensDoor (0, 0) 0 door_map)) = Some NullTile"
  by (simp add: unitOpensDoor_def unitOpensDoor_switch_def openDoor_def openDoor_at_def
      openDoor_result_def tile_call_def getTile_def pos_plus_def door_map_def put_part_def
      scout_map_def scout_def empty_map_def empty_tile_def ufo_door_def solid_def Let_def)

end
